theory Spec2Isabelle
  imports Complex_Main
begin

section \<open>Position risk control engine: common conventions\<close>

text \<open>
  The engine is the Python package \<open>high-freq-trading-system/risk\<close>: the position sizer,
  the risk manager (signal gate), the stop-loss manager and the take-profit manager.

  Python floats are modelled as \<open>real\<close>: arithmetic is exact, there is no rounding, no
  infinity and no NaN. Python's \<open>/\<close> raises \<open>ZeroDivisionError\<close> on a zero divisor (for
  floats as well as for ints), whereas HOL's \<open>x / 0\<close> is \<open>0\<close>; every division of the
  source whose divisor is not guarded is therefore a branch returning \<open>Inl ZeroDivisionError\<close>.

  A dict whose values are all numbers and that is read with \<open>.get(key, default)\<close> is an
  association list from key strings to reals. A dict with values of mixed types is a
  record with a field for each key the code reads; the field is an \<open>option\<close> where the
  code reads the key with \<open>.get\<close>, so that a missing key is \<open>None\<close>.
\<close>

datatype py_error = ZeroDivisionError | KeyError

type_synonym pydict = "(string \<times> real) list"

definition dict_get :: "pydict \<Rightarrow> string \<Rightarrow> real \<Rightarrow> real" where
  "dict_get d k dflt = (case map_of d k of None \<Rightarrow> dflt | Some v \<Rightarrow> v)"

text \<open>The trading signal \<open>{'direction', 'entry_price', 'stop_loss', 'strength'}\<close>.\<close>

record signal =
  direction :: string
  entry_price :: real
  stop_loss :: real
  strength :: string

section \<open>PositionSizer (position\_sizer.py)\<close>

text \<open>
  The instance attributes set by \<open>PositionSizer.__init__\<close> from the config dict, with the
  defaults of its \<open>config.get\<close> calls.
\<close>

record position_sizer =
  base_position_pct :: real
  max_position_pct :: real
  account_risk_pct :: real

definition PositionSizer_init :: "pydict \<Rightarrow> position_sizer" where
  "PositionSizer_init config =
     \<lparr> base_position_pct = dict_get config ''base_position_size'' 0.10,
       max_position_pct = dict_get config ''max_position_size'' 0.30,
       account_risk_pct = dict_get config ''account_risk_pct'' 0.02 \<rparr>"

record limits_applied =
  max_position_limit :: real
  max_risk_limit :: real
  la_adjusted_size :: real
  final_size :: real
  limiting_factor :: string

record breakdown =
  base_multiplier :: real
  volatility_multiplier :: real
  signal_multiplier :: real
  bd_risk_multiplier :: real
  combined_multiplier :: real
  stop_distance_pct :: real
  limits :: limits_applied

record sizing_result =
  position_value :: real
  quantity :: real
  base_size :: real
  adjusted_size :: real
  risk_amount :: real
  sizing_breakdown :: breakdown

definition calculate_volatility_multiplier :: "pydict \<Rightarrow> real" where
  "calculate_volatility_multiplier volatility =
     (let atr = dict_get volatility ''atr'' 0;
          price = dict_get volatility ''price'' 1;
          atr_normalized = (if price > 0 then atr / price else 0)
      in if atr_normalized < 0.01 then 1.5
         else if atr_normalized < 0.03 then 1.0
         else 0.5)"

definition calculate_signal_multiplier :: "string \<Rightarrow> real" where
  "calculate_signal_multiplier s =
     (if s = ''strong'' then 1.2
      else if s = ''medium'' then 1.0
      else if s = ''weak'' then 0.7
      else 1.0)"

definition get_limiting_factor :: "real \<Rightarrow> real \<Rightarrow> real \<Rightarrow> real \<Rightarrow> string" where
  "get_limiting_factor adjusted max_risk_size max_position_size final =
     (if final = adjusted then ''none''
      else if final = max_risk_size then ''risk_limit''
      else if final = max_position_size then ''max_position_limit''
      else ''unknown'')"

text \<open>
  \<open>calculate_position_size\<close>. The parameter \<open>market_data\<close> is never read by the source and
  is left out. The three unguarded divisions of the source are: \<open>/ entry_price\<close> for the
  stop distance (and again for the quantity), and \<open>final_size / account_equity\<close> (again
  \<open>risk_amount / account_equity\<close>) inside the f-string passed to \<open>logger.info\<close>, which
  Python evaluates before the call whatever the log level is.
\<close>

definition calculate_position_size ::
  "position_sizer \<Rightarrow> real \<Rightarrow> signal \<Rightarrow> pydict \<Rightarrow> real \<Rightarrow> py_error + sizing_result" where
  "calculate_position_size self account_equity sig volatility risk_multiplier =
     (let base = account_equity * base_position_pct self;
          vol_mult = calculate_volatility_multiplier volatility;
          signal_mult = calculate_signal_multiplier (strength sig);
          adjusted = base * vol_mult * signal_mult * risk_multiplier
      in if entry_price sig = 0 then Inl ZeroDivisionError
         else
           let stop_distance = \<bar>entry_price sig - stop_loss sig\<bar> / entry_price sig;
               max_risk_amount = account_equity * account_risk_pct self;
               max_risk_size =
                 (if stop_distance > 0 then max_risk_amount / stop_distance else adjusted);
               max_position_size = account_equity * max_position_pct self;
               final = min adjusted (min max_risk_size max_position_size);
               qty = final / entry_price sig;
               risk = final * stop_distance
           in if account_equity = 0 then Inl ZeroDivisionError
              else Inr
                \<lparr> position_value = final,
                  quantity = qty,
                  base_size = base,
                  adjusted_size = adjusted,
                  risk_amount = risk,
                  sizing_breakdown =
                    \<lparr> base_multiplier = 1.0,
                      volatility_multiplier = vol_mult,
                      signal_multiplier = signal_mult,
                      bd_risk_multiplier = risk_multiplier,
                      combined_multiplier = vol_mult * signal_mult * risk_multiplier,
                      stop_distance_pct = stop_distance,
                      limits =
                        \<lparr> max_position_limit = max_position_size,
                          max_risk_limit = max_risk_size,
                          la_adjusted_size = adjusted,
                          final_size = final,
                          limiting_factor =
                            get_limiting_factor adjusted max_risk_size max_position_size final
                        \<rparr> \<rparr> \<rparr>)"

section \<open>RiskManager (risk\_manager.py)\<close>

text \<open>
  Reasons and warnings are Python strings, most of them f-strings that format a number.
  A message is the template that produced it together with the number it formats (the
  rounding done by the format specification is not modelled); \<open>Text\<close> is a literal or a
  caller-supplied string.
\<close>

datatype message =
    Text string
  | TradingPaused "message option"
  | SentimentNegative real
  | HighRiskRate real
  | CriticalNegativeSentiment real
  | NegativeSentimentVeto real
  | FudRatio real
  | HighFudRatio real
  | CriticalLiquidationRisk real
  | WarningRiskRate real
  | MaxDrawdownReached real
  | HighDrawdown real
  | InsufficientBalance real real

text \<open>
  The config dict of the risk manager, with the three optional sub-dicts that it reads. \<open>sentiment_filter\<close> holds
  a boolean (\<open>enabled\<close>) beside its two numeric thresholds, so the boolean is a field of its
  own. The sub-dict \<open>position_sizing\<close> is never read by the risk manager.
\<close>

record risk_config =
  sentiment_filter_enabled :: "bool option"
  sentiment_filter :: "pydict option"
  liquidation_monitor :: "pydict option"
  cfg_drawdown :: "pydict option"

text \<open>\<open>config.get(name, {})\<close>: a missing sub-dict reads as the empty dict.\<close>

definition sub_dict :: "pydict option \<Rightarrow> pydict" where
  "sub_dict d = (case d of None \<Rightarrow> [] | Some x \<Rightarrow> x)"

text \<open>Python truthiness of an optional dict: \<open>None\<close> and the empty dict are false.\<close>

definition dict_truthy :: "pydict option \<Rightarrow> bool" where
  "dict_truthy d = (case d of None \<Rightarrow> False | Some x \<Rightarrow> x \<noteq> [])"

record risk_manager =
  config :: risk_config
  sentiment_enabled :: bool
  veto_threshold :: real
  critical_threshold :: real
  is_paused :: bool
  pause_reason :: "message option"
  daily_loss :: real
  max_equity :: real
  last_sentiment_check :: real
  cached_sentiment :: "pydict option"

definition RiskManager_init :: "risk_config \<Rightarrow> risk_manager" where
  "RiskManager_init cfg =
     \<lparr> config = cfg,
       sentiment_enabled =
         (case sentiment_filter_enabled cfg of None \<Rightarrow> True | Some b \<Rightarrow> b),
       veto_threshold = dict_get (sub_dict (sentiment_filter cfg)) ''veto_threshold'' (- 0.4),
       critical_threshold =
         dict_get (sub_dict (sentiment_filter cfg)) ''critical_threshold'' (- 0.6),
       is_paused = False,
       pause_reason = None,
       daily_loss = 0,
       max_equity = 0,
       last_sentiment_check = 0,
       cached_sentiment = None \<rparr>"

record risk_decision =
  approved :: bool
  reason :: message
  position_size_multiplier :: real
  warnings :: "message list"

record sentiment_result =
  sr_approved :: bool
  sr_reason :: message
  sentiment_score :: real
  sr_warnings :: "message list"

record liquidation_result =
  lr_approved :: bool
  lr_reason :: message
  risk_rate :: real
  lr_warnings :: "message list"

record drawdown_result =
  dr_approved :: bool
  dr_reason :: message
  drawdown :: real
  dr_warnings :: "message list"

record account_result =
  ar_approved :: bool
  ar_reason :: message

text \<open>
  \<open>_check_sentiment\<close>. \<open>now\<close> is the reading of \<open>time.time()\<close> during the call. Only the
  default branch writes the cache.
\<close>

definition check_sentiment ::
  "risk_manager \<Rightarrow> real \<Rightarrow> pydict option \<Rightarrow> sentiment_result \<times> risk_manager" where
  "check_sentiment self now sentiment_data =
     (let (score, fud_ratio, self') =
            (if dict_truthy sentiment_data then
               (dict_get (sub_dict sentiment_data) ''score'' 0,
                dict_get (sub_dict sentiment_data) ''fud_ratio'' 0, self)
             else if dict_truthy (cached_sentiment self)
                     \<and> now - last_sentiment_check self < 300 then
               (dict_get (sub_dict (cached_sentiment self)) ''score'' 0,
                dict_get (sub_dict (cached_sentiment self)) ''fud_ratio'' 0, self)
             else
               (0, 0, self\<lparr> cached_sentiment := Some [(''score'', 0), (''fud_ratio'', 0)],
                            last_sentiment_check := now \<rparr>))
      in if score \<le> critical_threshold self then
           (\<lparr> sr_approved = False, sr_reason = CriticalNegativeSentiment score,
              sentiment_score = score, sr_warnings = [FudRatio fud_ratio] \<rparr>, self')
         else if score \<le> veto_threshold self then
           (\<lparr> sr_approved = False, sr_reason = NegativeSentimentVeto score,
              sentiment_score = score, sr_warnings = [FudRatio fud_ratio] \<rparr>, self')
         else
           (\<lparr> sr_approved = True, sr_reason = Text ''Sentiment check passed'',
              sentiment_score = score,
              sr_warnings = (if fud_ratio > 0.30 then [HighFudRatio fud_ratio] else []) \<rparr>,
            self'))"

text \<open>\<open>_check_liquidation_risk\<close>; the position dicts themselves are never read.\<close>

definition check_liquidation_risk ::
  "risk_manager \<Rightarrow> pydict \<Rightarrow> pydict list option \<Rightarrow> liquidation_result" where
  "check_liquidation_risk self account_info positions =
     (if positions = None \<or> positions = Some [] then
        \<lparr> lr_approved = True, lr_reason = Text ''No positions'', risk_rate = 0,
          lr_warnings = [] \<rparr>
      else
        let total_equity = dict_get account_info ''total'' 0;
            used_margin = dict_get account_info ''used'' 0;
            rate = (if total_equity > 0 then used_margin / total_equity else 0)
        in if rate \<ge> dict_get (sub_dict (liquidation_monitor (config self)))
                         ''critical_threshold'' 0.50 then
             \<lparr> lr_approved = False, lr_reason = CriticalLiquidationRisk rate,
               risk_rate = rate, lr_warnings = [Text ''Immediate action required!''] \<rparr>
           else
             \<lparr> lr_approved = True, lr_reason = Text ''Liquidation risk acceptable'',
               risk_rate = rate,
               lr_warnings =
                 (if rate \<ge> dict_get (sub_dict (liquidation_monitor (config self)))
                                ''warning_threshold'' 0.20
                  then [WarningRiskRate rate] else []) \<rparr>)"

text \<open>\<open>_check_drawdown\<close>: raises the high-water mark, and pauses trading at the limit.\<close>

definition check_drawdown ::
  "risk_manager \<Rightarrow> pydict \<Rightarrow> drawdown_result \<times> risk_manager" where
  "check_drawdown self account_info =
     (let total_equity = dict_get account_info ''total'' 0;
          self1 = (if total_equity > max_equity self
                   then self\<lparr> max_equity := total_equity \<rparr> else self);
          dd = (if max_equity self1 > 0
                then (max_equity self1 - total_equity) / max_equity self1 else 0);
          max_drawdown = dict_get (sub_dict (cfg_drawdown (config self1))) ''max_drawdown'' 0.15;
          pause_threshold =
            dict_get (sub_dict (cfg_drawdown (config self1))) ''pause_threshold'' 0.10
      in if dd \<ge> max_drawdown then
           (\<lparr> dr_approved = False, dr_reason = MaxDrawdownReached dd, drawdown = dd,
              dr_warnings = [Text ''Trading paused''] \<rparr>,
            self1\<lparr> is_paused := True, pause_reason := Some (MaxDrawdownReached dd) \<rparr>)
         else
           (\<lparr> dr_approved = True, dr_reason = Text ''Drawdown acceptable'', drawdown = dd,
              dr_warnings = (if dd \<ge> pause_threshold then [HighDrawdown dd] else []) \<rparr>,
            self1))"

text \<open>
  \<open>_check_account_balance\<close>; the division \<open>available/total\<close> of its f-strings is behind
  the test \<open>total > 0\<close>. The low-balance warning is only logged.
\<close>

definition check_account_balance :: "pydict \<Rightarrow> account_result" where
  "check_account_balance account_info =
     (let available = dict_get account_info ''available'' 0;
          total = dict_get account_info ''total'' 0
      in if total > 0 \<and> available < total * 0.10 then
           \<lparr> ar_approved = False, ar_reason = InsufficientBalance available (available / total) \<rparr>
         else
           \<lparr> ar_approved = True, ar_reason = Text ''Balance sufficient'' \<rparr>)"

text \<open>
  \<open>validate_signal\<close>, the gate. It returns the decision and the manager as the call
  leaves it. The warnings of an approving sentiment check are not copied into the local
  list \<open>warnings\<close>: the source extends that list with the liquidation and the drawdown
  warnings only.
\<close>

definition validate_signal ::
  "risk_manager \<Rightarrow> real \<Rightarrow> signal \<Rightarrow> pydict \<Rightarrow> pydict list option \<Rightarrow> pydict option
     \<Rightarrow> risk_decision \<times> risk_manager" where
  "validate_signal self now sig account_info positions sentiment_data =
     (if is_paused self then
        (\<lparr> approved = False, reason = TradingPaused (pause_reason self),
           position_size_multiplier = 0, warnings = [] \<rparr>, self)
      else
        let (rejected, mult1, warnings1, self1) =
              (if sentiment_enabled self \<and> direction sig = ''buy'' then
                 let (sres, self') = check_sentiment self now sentiment_data
                 in if \<not> sr_approved sres then
                      (Some \<lparr> approved = False, reason = sr_reason sres,
                              position_size_multiplier = 0, warnings = sr_warnings sres \<rparr>,
                       1.0, [], self')
                    else if sentiment_score sres < - 0.2 then
                      (None, 1.0 * 0.7, [SentimentNegative (sentiment_score sres)], self')
                    else (None, 1.0, [], self')
               else (None, 1.0, [], self))
        in case rejected of
             Some decision \<Rightarrow> (decision, self1)
           | None \<Rightarrow>
               let lres = check_liquidation_risk self1 account_info positions
               in if \<not> lr_approved lres then
                    (\<lparr> approved = False, reason = lr_reason lres,
                       position_size_multiplier = 0, warnings = lr_warnings lres \<rparr>, self1)
                  else
                    let warnings2 = warnings1 @ lr_warnings lres;
                        (mult2, warnings3) =
                          (if risk_rate lres > 0.10
                           then (mult1 * 0.5, warnings2 @ [HighRiskRate (risk_rate lres)])
                           else (mult1, warnings2));
                        (dres, self2) = check_drawdown self1 account_info
                    in if \<not> dr_approved dres then
                         (\<lparr> approved = False, reason = dr_reason dres,
                            position_size_multiplier = 0, warnings = dr_warnings dres \<rparr>,
                          self2)
                       else
                         let warnings4 = warnings3 @ dr_warnings dres;
                             ares = check_account_balance account_info
                         in if \<not> ar_approved ares then
                              (\<lparr> approved = False, reason = ar_reason ares,
                                 position_size_multiplier = 0, warnings = warnings4 \<rparr>,
                               self2)
                            else
                              (\<lparr> approved = True, reason = Text ''All risk checks passed'',
                                 position_size_multiplier = mult2, warnings = warnings4 \<rparr>,
                               self2))"

definition pause_trading :: "risk_manager \<Rightarrow> string \<Rightarrow> risk_manager" where
  "pause_trading self why = self\<lparr> is_paused := True, pause_reason := Some (Text why) \<rparr>"

definition resume_trading :: "risk_manager \<Rightarrow> risk_manager" where
  "resume_trading self = self\<lparr> is_paused := False, pause_reason := None \<rparr>"

definition reset_max_equity :: "risk_manager \<Rightarrow> real \<Rightarrow> risk_manager" where
  "reset_max_equity self equity = self\<lparr> max_equity := equity \<rparr>"

text \<open>
  A sequence of \<open>validate_signal\<close> calls on one manager: each call is the clock reading
  and the four arguments; the manager left by one call is the one the next call sees.
\<close>

type_synonym gate_call = "real \<times> signal \<times> pydict \<times> pydict list option \<times> pydict option"

fun run_signals :: "risk_manager \<Rightarrow> gate_call list \<Rightarrow> risk_decision list \<times> risk_manager" where
  "run_signals self [] = ([], self)"
| "run_signals self ((now, sig, account_info, positions, sentiment_data) # calls) =
     (let (d, self1) = validate_signal self now sig account_info positions sentiment_data;
          (ds, self2) = run_signals self1 calls
      in (d # ds, self2))"

section \<open>StopLossManager (stop\_loss\_manager.py)\<close>

text \<open>
  The position dict handed to both trackers. The stop-loss manager reads \<open>position['side']\<close>
  (a missing key raises \<open>KeyError\<close>); the take-profit manager reads \<open>side\<close>, \<open>direction\<close>,
  \<open>qty\<close> and \<open>quantity\<close> with \<open>.get\<close>. Both index \<open>position['entry_price']\<close>.
\<close>

record position =
  side :: "string option"
  pos_direction :: "string option"
  pos_entry_price :: real
  qty :: "real option"
  pos_quantity :: "real option"

record stop_loss_config =
  default_pct :: "real option"
  breakout_pct :: "real option"
  trailing_enabled_cfg :: "bool option"
  trailing_activation :: "real option"
  trailing_distance :: "real option"

record stop_info =
  fixed_stop :: real
  trailing_stop :: real
  trailing_activated :: bool
  highest_price :: real
  lowest_price :: real
  si_entry_price :: real
  si_side :: string
  stop_pct :: real

record stop_loss_manager =
  default_stop_pct :: real
  breakout_stop_pct :: real
  trailing_enabled :: bool
  trailing_activation_pct :: real
  trailing_distance_pct :: real
  position_stops :: "string \<rightharpoonup> stop_info"

definition StopLossManager_init :: "stop_loss_config \<Rightarrow> stop_loss_manager" where
  "StopLossManager_init cfg =
     \<lparr> default_stop_pct = (case default_pct cfg of None \<Rightarrow> 0.02 | Some v \<Rightarrow> v),
       breakout_stop_pct = (case breakout_pct cfg of None \<Rightarrow> 0.03 | Some v \<Rightarrow> v),
       trailing_enabled = (case trailing_enabled_cfg cfg of None \<Rightarrow> True | Some b \<Rightarrow> b),
       trailing_activation_pct = (case trailing_activation cfg of None \<Rightarrow> 0.01 | Some v \<Rightarrow> v),
       trailing_distance_pct = (case trailing_distance cfg of None \<Rightarrow> 0.01 | Some v \<Rightarrow> v),
       position_stops = Map.empty \<rparr>"

definition initialize_stop_loss ::
  "stop_loss_manager \<Rightarrow> string \<Rightarrow> position \<Rightarrow> string
     \<Rightarrow> py_error + (stop_info \<times> stop_loss_manager)" where
  "initialize_stop_loss self symbol pos strategy =
     (case side pos of
        None \<Rightarrow> Inl KeyError
      | Some sd \<Rightarrow>
          let entry = pos_entry_price pos;
              pct = (if strategy = ''Breakout'' then breakout_stop_pct self
                     else default_stop_pct self);
              fixed = (if sd = ''buy'' then entry * (1 - pct) else entry * (1 + pct));
              info = \<lparr> fixed_stop = fixed, trailing_stop = fixed, trailing_activated = False,
                       highest_price = entry, lowest_price = entry, si_entry_price = entry,
                       si_side = sd, stop_pct = pct \<rparr>
          in Inr (info, self\<lparr> position_stops := (position_stops self)(symbol \<mapsto> info) \<rparr>))"

record stop_update =
  stop_triggered :: bool
  stop_price :: "real option"
  stop_type :: "string option"
  su_stop_info :: "stop_info option"
  su_current_price :: "real option"
  pnl_pct :: "real option"

text \<open>Step 1 of \<open>update_stop_loss\<close>: activation of the trailing stop.\<close>

definition activate_trailing :: "stop_loss_manager \<Rightarrow> stop_info \<Rightarrow> real \<Rightarrow> stop_info" where
  "activate_trailing self info pnl =
     (if trailing_enabled self \<and> \<not> trailing_activated info
         \<and> pnl \<ge> trailing_activation_pct self
      then info\<lparr> trailing_activated := True \<rparr> else info)"

text \<open>Step 2: the extreme price and the trailing stop follow a favourable price.\<close>

definition move_trailing :: "stop_loss_manager \<Rightarrow> stop_info \<Rightarrow> real \<Rightarrow> stop_info" where
  "move_trailing self info current_price =
     (if trailing_activated info then
        if si_side info = ''buy'' then
          if current_price > highest_price info then
            info\<lparr> highest_price := current_price,
                  trailing_stop := current_price * (1 - trailing_distance_pct self) \<rparr>
          else info
        else
          if current_price < lowest_price info then
            info\<lparr> lowest_price := current_price,
                  trailing_stop := current_price * (1 + trailing_distance_pct self) \<rparr>
          else info
      else info)"

text \<open>Step 3: the trigger test and the returned dict.\<close>

definition stop_check :: "stop_info \<Rightarrow> real \<Rightarrow> real \<Rightarrow> stop_update" where
  "stop_check info current_price pnl =
     (let hit_trailing = \<lparr> stop_triggered = True, stop_price = Some (trailing_stop info),
                           stop_type = Some ''trailing'', su_stop_info = Some info,
                           su_current_price = Some current_price, pnl_pct = Some pnl \<rparr>;
          hit_fixed = \<lparr> stop_triggered = True, stop_price = Some (fixed_stop info),
                        stop_type = Some ''fixed'', su_stop_info = Some info,
                        su_current_price = Some current_price, pnl_pct = Some pnl \<rparr>;
          no_hit = \<lparr> stop_triggered = False, stop_price = None, stop_type = None,
                     su_stop_info = Some info, su_current_price = Some current_price,
                     pnl_pct = Some pnl \<rparr>
      in if si_side info = ''buy'' then
           if trailing_activated info then
             if current_price \<le> trailing_stop info then hit_trailing else no_hit
           else
             if current_price \<le> fixed_stop info then hit_fixed else no_hit
         else
           if trailing_activated info then
             if current_price \<ge> trailing_stop info then hit_trailing else no_hit
           else
             if current_price \<ge> fixed_stop info then hit_fixed else no_hit)"

text \<open>
  \<open>update_stop_loss\<close>. The profit percentage divides by the entry price without a guard,
  before anything is written; an exception leaves the manager as it was.
\<close>

definition update_stop_loss ::
  "stop_loss_manager \<Rightarrow> string \<Rightarrow> real \<Rightarrow> py_error + (stop_update \<times> stop_loss_manager)" where
  "update_stop_loss self symbol current_price =
     (case position_stops self symbol of
        None \<Rightarrow>
          Inr (\<lparr> stop_triggered = False, stop_price = None, stop_type = None,
                 su_stop_info = None, su_current_price = None, pnl_pct = None \<rparr>, self)
      | Some info \<Rightarrow>
          if si_entry_price info = 0 then Inl ZeroDivisionError
          else
            let pnl = (if si_side info = ''buy''
                       then (current_price - si_entry_price info) / si_entry_price info
                       else (si_entry_price info - current_price) / si_entry_price info);
                info1 = activate_trailing self info pnl;
                info2 = move_trailing self info1 current_price
            in Inr (stop_check info2 current_price pnl,
                    self\<lparr> position_stops := (position_stops self)(symbol \<mapsto> info2) \<rparr>))"

definition remove_stop_loss :: "stop_loss_manager \<Rightarrow> string \<Rightarrow> stop_loss_manager" where
  "remove_stop_loss self symbol =
     self\<lparr> position_stops := (position_stops self)(symbol := None) \<rparr>"







section \<open>TakeProfitManager (take\_profit\_manager.py)\<close>

text \<open>
  An element of a caller-supplied list of levels or ratios: a number (\<open>isinstance(value,
  (int, float))\<close> holds, booleans included, read through \<open>float\<close>) or anything else.
\<close>

datatype pyval = Num real | NotNum

text \<open>\<open>str.lower\<close> on the ASCII letters.\<close>

definition lower_char :: "char \<Rightarrow> char" where
  "lower_char c =
     (case map_of (zip ''ABCDEFGHIJKLMNOPQRSTUVWXYZ'' ''abcdefghijklmnopqrstuvwxyz'') c of
        None \<Rightarrow> c
      | Some d \<Rightarrow> d)"

definition lower :: "string \<Rightarrow> string" where
  "lower s = map lower_char s"

record tp_config =
  cfg_levels :: "pyval list option"
  cfg_ratios :: "pyval list option"

record level =
  lv_index :: nat
  lv_pct :: real
  lv_price :: real
  lv_ratio :: real
  target_qty :: real
  triggered :: bool
  trigger_ts :: "int option"
  filled_qty :: real

record tp_info =
  tp_direction :: string
  tp_entry_price :: real
  total_qty :: real
  remaining_qty :: real
  levels :: "level list"
  next_index :: nat
  created_at :: int
  completed :: bool

record take_profit_manager =
  default_levels :: "real list"
  default_ratios :: "real list"
  targets :: "string \<rightharpoonup> tp_info"

text \<open>The loop of \<open>_sanitize_levels\<close>: the positive numbers of the list.\<close>

fun positive_numbers :: "pyval list \<Rightarrow> real list" where
  "positive_numbers [] = []"
| "positive_numbers (Num x # vs) = (if x > 0 then x # positive_numbers vs else positive_numbers vs)"
| "positive_numbers (NotNum # vs) = positive_numbers vs"

definition sanitize_levels :: "pyval list option \<Rightarrow> real list" where
  "sanitize_levels lvls = (case lvls of None \<Rightarrow> [] | Some vs \<Rightarrow> positive_numbers vs)"

text \<open>
  The comprehension \<open>[float(r) for r in rs if isinstance(r, (int, float)) and r >= 0]\<close>.
\<close>

fun ratio_numbers :: "pyval list \<Rightarrow> real list" where
  "ratio_numbers [] = []"
| "ratio_numbers (Num x # vs) = (if x \<ge> 0 then x # ratio_numbers vs else ratio_numbers vs)"
| "ratio_numbers (NotNum # vs) = ratio_numbers vs"

text \<open>
  \<open>_match_length_and_normalize\<close>, in its two halves: the list is brought to the
  requested length, then rescaled.
\<close>

definition match_length :: "real list \<Rightarrow> nat \<Rightarrow> real list" where
  "match_length ratios n =
     (if ratios = [] then replicate n 1.0
      else if length ratios < n then ratios @ replicate (n - length ratios) (last ratios)
      else if length ratios > n then take n ratios
      else ratios)"

definition match_length_and_normalize :: "real list \<Rightarrow> nat \<Rightarrow> real list" where
  "match_length_and_normalize ratios n =
     (if n \<le> 0 then []
      else
        let normalized = match_length ratios n;
            total = sum_list normalized
        in if total = 0 then replicate n (1.0 / real n)
           else map (\<lambda>v. v / total) normalized)"

definition TakeProfitManager_init :: "tp_config \<Rightarrow> take_profit_manager" where
  "TakeProfitManager_init cfg =
     (let raw_levels = sanitize_levels (cfg_levels cfg);
          lvls = (if raw_levels = [] then [0.03, 0.05, 0.08] else raw_levels);
          raw_ratios = ratio_numbers (case cfg_ratios cfg of None \<Rightarrow> [] | Some rs \<Rightarrow> rs)
      in \<lparr> default_levels = lvls,
           default_ratios = match_length_and_normalize raw_ratios (length lvls),
           targets = Map.empty \<rparr>)"

definition prepare_levels_and_ratios ::
  "take_profit_manager \<Rightarrow> pyval list option \<Rightarrow> pyval list option \<Rightarrow> real list \<times> real list" where
  "prepare_levels_and_ratios self requested_levels requested_ratios =
     (let lvls0 = sanitize_levels requested_levels;
          lvls = (if lvls0 = [] then default_levels self else lvls0);
          candidates0 = (case requested_ratios of None \<Rightarrow> [] | Some rs \<Rightarrow> ratio_numbers rs);
          candidates = (if candidates0 = [] then default_ratios self else candidates0)
      in (lvls, match_length_and_normalize candidates (length lvls)))"

text \<open>\<open>a or b or ''\<close> on optional strings, and \<open>a or b or 0.0\<close> on optional numbers.\<close>

definition first_string :: "string option \<Rightarrow> string option \<Rightarrow> string" where
  "first_string a b =
     (if a \<noteq> None \<and> a \<noteq> Some [] then the a
      else if b \<noteq> None \<and> b \<noteq> Some [] then the b
      else [])"

definition first_number :: "real option \<Rightarrow> real option \<Rightarrow> real" where
  "first_number a b =
     (if a \<noteq> None \<and> a \<noteq> Some 0 then the a
      else if b \<noteq> None \<and> b \<noteq> Some 0 then the b
      else 0.0)"

definition normalize_direction :: "position \<Rightarrow> string" where
  "normalize_direction pos =
     (let sd = lower (first_string (side pos) (pos_direction pos))
      in if sd = ''sell'' \<or> sd = ''short'' then ''sell'' else ''buy'')"

definition is_level_hit :: "string \<Rightarrow> real \<Rightarrow> real \<Rightarrow> bool" where
  "is_level_hit dir current_price target_price =
     (if dir = ''buy'' then current_price \<ge> target_price else current_price \<le> target_price)"

definition calculate_target_price :: "real \<Rightarrow> real \<Rightarrow> string \<Rightarrow> real" where
  "calculate_target_price entry pct dir =
     (if dir = ''buy'' then entry * (1 + pct) else entry * (1 - pct))"

text \<open>The body of the \<open>for\<close> loop of \<open>initialize_take_profit\<close>, over \<open>enumerate(zip(...))\<close>.\<close>

definition make_level :: "real \<Rightarrow> string \<Rightarrow> real \<Rightarrow> nat \<times> real \<times> real \<Rightarrow> level" where
  "make_level entry dir total_quantity x =
     \<lparr> lv_index = fst x, lv_pct = fst (snd x),
       lv_price = calculate_target_price entry (fst (snd x)) dir,
       lv_ratio = snd (snd x), target_qty = total_quantity * snd (snd x),
       triggered = False, trigger_ts = None, filled_qty = 0.0 \<rparr>"

text \<open>
  \<open>initialize_take_profit\<close>; \<open>now_ms\<close> is \<open>int(time.time() * 1000)\<close>. A quantity that is
  missing, zero or negative is replaced by 1.
\<close>

definition initialize_take_profit ::
  "take_profit_manager \<Rightarrow> int \<Rightarrow> string \<Rightarrow> position \<Rightarrow> pyval list option \<Rightarrow> pyval list option
     \<Rightarrow> tp_info \<times> take_profit_manager" where
  "initialize_take_profit self now_ms symbol pos take_profit_pcts ratios =
     (let dir = normalize_direction pos;
          entry = pos_entry_price pos;
          total0 = first_number (qty pos) (pos_quantity pos);
          total = (if total0 \<le> 0 then 1.0 else total0);
          lr = prepare_levels_and_ratios self take_profit_pcts ratios;
          level_infos = map (make_level entry dir total) (enumerate 0 (zip (fst lr) (snd lr)));
          info = \<lparr> tp_direction = dir, tp_entry_price = entry, total_qty = total,
                   remaining_qty = total, levels = level_infos, next_index = 0,
                   created_at = now_ms, completed = False \<rparr>
      in (info, self\<lparr> targets := (targets self)(symbol \<mapsto> info) \<rparr>))"

record triggered_level =
  tl_index :: nat
  tl_price :: real
  tl_ratio :: real
  tl_qty :: real
  tl_pct :: real

record tp_update =
  tu_symbol :: string
  tu_triggered :: bool
  triggered_levels :: "triggered_level list"
  tu_current_price :: real
  tu_remaining_qty :: real
  tu_completed :: bool
  next_level_price :: "real option"
  take_profit_info :: "tp_info option"

text \<open>
  One pass through the body of the \<open>while\<close> loop of \<open>update_take_profit\<close> for the level
  at \<open>next_index\<close> (which the loop condition has checked to exist): fill it, reduce the
  remaining quantity, advance the index.
\<close>

definition fill_level :: "int \<Rightarrow> tp_info \<Rightarrow> tp_info" where
  "fill_level now_ms info =
     (let lv = levels info ! next_index info;
          fill = min (target_qty lv) (remaining_qty info)
      in info\<lparr> levels := (levels info)[next_index info :=
                   lv\<lparr> filled_qty := fill, triggered := True, trigger_ts := Some now_ms \<rparr>],
               remaining_qty := max (remaining_qty info - fill) 0.0,
               next_index := next_index info + 1 \<rparr>)"

definition fill_report :: "tp_info \<Rightarrow> triggered_level" where
  "fill_report info =
     (let lv = levels info ! next_index info
      in \<lparr> tl_index = lv_index lv, tl_price = lv_price lv, tl_ratio = lv_ratio lv,
           tl_qty = min (target_qty lv) (remaining_qty info), tl_pct = lv_pct lv \<rparr>)"

function tp_loop ::
  "int \<Rightarrow> real \<Rightarrow> tp_info \<Rightarrow> triggered_level list \<Rightarrow> tp_info \<times> triggered_level list" where
  "tp_loop now_ms current_price info trig =
     (if next_index info < length (levels info) then
        if \<not> is_level_hit (tp_direction info) current_price
                 (lv_price (levels info ! next_index info))
        then (info, trig)
        else if remaining_qty (fill_level now_ms info) \<le> 0
        then (fill_level now_ms info, trig @ [fill_report info])
        else tp_loop now_ms current_price (fill_level now_ms info) (trig @ [fill_report info])
      else (info, trig))"
  by pat_completeness auto
termination
  by (relation "measure (\<lambda>(now_ms, current_price, info, trig).
                  length (levels info) - next_index info)")
     (auto simp add: fill_level_def Let_def)

declare tp_loop.simps [simp del]

definition update_take_profit ::
  "take_profit_manager \<Rightarrow> int \<Rightarrow> string \<Rightarrow> real \<Rightarrow> tp_update \<times> take_profit_manager" where
  "update_take_profit self now_ms symbol current_price =
     (case targets self symbol of
        None \<Rightarrow>
          (\<lparr> tu_symbol = symbol, tu_triggered = False, triggered_levels = [],
             tu_current_price = current_price, tu_remaining_qty = 0.0, tu_completed = False,
             next_level_price = None, take_profit_info = None \<rparr>, self)
      | Some info0 \<Rightarrow>
          let looped = tp_loop now_ms current_price info0 [];
              info1 = fst looped;
              done = (next_index info1 \<ge> length (levels info1) \<or> remaining_qty info1 \<le> 0);
              info2 = info1\<lparr> completed := done \<rparr>
          in (\<lparr> tu_symbol = symbol, tu_triggered = (snd looped \<noteq> []),
                triggered_levels = snd looped, tu_current_price = current_price,
                tu_remaining_qty = remaining_qty info2, tu_completed = done,
                next_level_price =
                  (if next_index info2 < length (levels info2)
                   then Some (lv_price (levels info2 ! next_index info2)) else None),
                take_profit_info = Some info2 \<rparr>,
              self\<lparr> targets := (targets self)(symbol \<mapsto> info2) \<rparr>))"

definition remove_take_profit :: "take_profit_manager \<Rightarrow> string \<Rightarrow> take_profit_manager" where
  "remove_take_profit self symbol = self\<lparr> targets := (targets self)(symbol := None) \<rparr>"

text \<open>
  A history of calls on one take-profit manager: initialisations, price updates and
  removals, for any symbols, in any order.
\<close>

datatype tp_op =
    InitTP int string position "pyval list option" "pyval list option"
  | UpdateTP int string real
  | RemoveTP string

fun tp_step :: "take_profit_manager \<Rightarrow> tp_op \<Rightarrow> take_profit_manager" where
  "tp_step self (InitTP now_ms symbol pos pcts ratios) =
     snd (initialize_take_profit self now_ms symbol pos pcts ratios)"
| "tp_step self (UpdateTP now_ms symbol current_price) =
     snd (update_take_profit self now_ms symbol current_price)"
| "tp_step self (RemoveTP symbol) = remove_take_profit self symbol"

fun run_tp_ops :: "take_profit_manager \<Rightarrow> tp_op list \<Rightarrow> take_profit_manager" where
  "run_tp_ops self [] = self"
| "run_tp_ops self (x # xs) = run_tp_ops (tp_step self x) xs"

text \<open>The quantity filled so far: the sum of \<open>filled_qty\<close> over the triggered levels.\<close>

definition filled_sum :: "tp_info \<Rightarrow> real" where
  "filled_sum info = sum_list (map filled_qty (filter triggered (levels info)))"

text \<open>
  The accounting invariant of a take-profit tracker: the levels before \<open>next_index\<close> are
  triggered and filled with their target quantity, the levels from \<open>next_index\<close> on are
  untouched, the remaining quantity is the sum of the target quantities still to come,
  the total quantity is the sum of all target quantities, and a tracker flagged completed
  has nothing remaining. \<open>tp_manager_inv\<close>: the manager has default levels, its default
  ratios are not negative, and every tracker it holds satisfies the invariant.
\<close>

definition tp_inv :: "tp_info \<Rightarrow> bool" where
  "tp_inv info =
     (next_index info \<le> length (levels info)
      \<and> (\<forall>l \<in> set (levels info). 0 \<le> target_qty l)
      \<and> (\<forall>l \<in> set (take (next_index info) (levels info)).
            triggered l \<and> filled_qty l = target_qty l)
      \<and> (\<forall>l \<in> set (drop (next_index info) (levels info)). \<not> triggered l)
      \<and> remaining_qty info = sum_list (map target_qty (drop (next_index info) (levels info)))
      \<and> total_qty info = sum_list (map target_qty (levels info))
      \<and> (completed info \<longrightarrow> remaining_qty info = 0))"

definition tp_manager_inv :: "take_profit_manager \<Rightarrow> bool" where
  "tp_manager_inv self =
     (default_levels self \<noteq> []
      \<and> (\<forall>r \<in> set (default_ratios self). 0 \<le> r)
      \<and> (\<forall>symbol info. targets self symbol = Some info \<longrightarrow> tp_inv info))"

section \<open>Properties of the position sizer\<close>

lemma dict_get_hd [simp]: "dict_get ((k, v) # d) k dflt = v"
  by (simp add: dict_get_def)

lemma dict_get_tl [simp]: "k' \<noteq> k \<Longrightarrow> dict_get ((k', v) # d) k dflt = dict_get d k dflt"
  by (simp add: dict_get_def)

lemma dict_get_Nil [simp]: "dict_get [] k dflt = dflt"
  by (simp add: dict_get_def)

text \<open>
  Claim C2. With equity 10000, base position 10\%, maximal position 30\%, account risk 2\%,
  an ATR that is 0.5\% of the price, a strong signal, risk multiplier 1, entry 100 and
  stop 98, the sizer returns base size 1000, adjusted size 1800 (volatility multiplier 1.5,
  signal multiplier 1.2), stop distance 0.02, risk cap 10000, position cap 3000, position
  value 1800, quantity 18 and risk amount 36.
\<close>

theorem sizing_scenario:
  assumes "p > 0"
  shows "calculate_position_size
           (PositionSizer_init [(''base_position_size'', 0.10), (''max_position_size'', 0.30),
                                (''account_risk_pct'', 0.02)])
           10000
           \<lparr> direction = d, entry_price = 100, stop_loss = 98, strength = ''strong'' \<rparr>
           [(''atr'', 0.005 * p), (''price'', p)]
           1.0
         = Inr \<lparr> position_value = 1800, quantity = 18, base_size = 1000,
                 adjusted_size = 1800, risk_amount = 36,
                 sizing_breakdown =
                   \<lparr> base_multiplier = 1, volatility_multiplier = 1.5,
                     signal_multiplier = 1.2, bd_risk_multiplier = 1,
                     combined_multiplier = 1.8, stop_distance_pct = 0.02,
                     limits = \<lparr> max_position_limit = 3000, max_risk_limit = 10000,
                                la_adjusted_size = 1800, final_size = 1800,
                                limiting_factor = ''none'' \<rparr> \<rparr> \<rparr>"
  using assms
  by (simp add: calculate_position_size_def PositionSizer_init_def
      calculate_volatility_multiplier_def calculate_signal_multiplier_def
      get_limiting_factor_def Let_def)

theorem sizing_scenario_witness:
  "(100::real) > 0 \<and>
   calculate_position_size
     (PositionSizer_init [(''base_position_size'', 0.10), (''max_position_size'', 0.30),
                          (''account_risk_pct'', 0.02)])
     10000
     \<lparr> direction = ''buy'', entry_price = 100, stop_loss = 98, strength = ''strong'' \<rparr>
     [(''atr'', 0.005 * 100), (''price'', 100)]
     1.0
   = Inr \<lparr> position_value = 1800, quantity = 18, base_size = 1000,
           adjusted_size = 1800, risk_amount = 36,
           sizing_breakdown =
             \<lparr> base_multiplier = 1, volatility_multiplier = 1.5,
               signal_multiplier = 1.2, bd_risk_multiplier = 1,
               combined_multiplier = 1.8, stop_distance_pct = 0.02,
               limits = \<lparr> max_position_limit = 3000, max_risk_limit = 10000,
                          la_adjusted_size = 1800, final_size = 1800,
                          limiting_factor = ''none'' \<rparr> \<rparr> \<rparr>"
  using sizing_scenario [of 100 "''buy''"] by simp

text \<open>
  Claim C9. For every positive account equity and every signal with a positive entry
  price the sizer returns a result, and in it quantity times entry price is the position
  value (in exact arithmetic).
\<close>

theorem quantity_times_entry_price:
  assumes "account_equity > 0" and "entry_price sig > 0"
  shows "\<exists>r. calculate_position_size self account_equity sig volatility risk_multiplier = Inr r
             \<and> quantity r * entry_price sig = position_value r"
  using assms by (simp add: calculate_position_size_def Let_def)

theorem quantity_times_entry_price_witness:
  "(5000::real) > 0 \<and>
   entry_price \<lparr> direction = ''sell'', entry_price = 250, stop_loss = 260,
                 strength = ''weak'' \<rparr> > 0 \<and>
   (\<exists>r. calculate_position_size (PositionSizer_init []) 5000
           \<lparr> direction = ''sell'', entry_price = 250, stop_loss = 260, strength = ''weak'' \<rparr>
           [(''atr'', 10), (''price'', 250)] 0.5 = Inr r
       \<and> quantity r * entry_price \<lparr> direction = ''sell'', entry_price = 250,
                                     stop_loss = 260, strength = ''weak'' \<rparr>
         = position_value r)"
  using quantity_times_entry_price
    [of 5000 "\<lparr> direction = ''sell'', entry_price = 250, stop_loss = 260, strength = ''weak'' \<rparr>"
        "PositionSizer_init []" "[(''atr'', 10), (''price'', 250)]" "0.5"]
  by simp

text \<open>
  Claim C7. The sizer is claimed never to raise on degenerate numeric input and to perform
  no division by zero for a zero entry price. The source guards the division by the stop
  distance, but divides by the entry price without a guard: with entry price 0 the call
  raises \<open>ZeroDivisionError\<close>.
\<close>

theorem zero_entry_price_raises:
  "calculate_position_size (PositionSizer_init []) 10000
     \<lparr> direction = ''buy'', entry_price = 0, stop_loss = 0, strength = ''strong'' \<rparr>
     [(''atr'', 1), (''price'', 100)] 1.0
   = Inl ZeroDivisionError"
  by (simp add: calculate_position_size_def Let_def)

section \<open>Properties of the risk manager\<close>

lemma validate_signal_paused:
  "is_paused self \<Longrightarrow>
   validate_signal self now sig acc pos sent =
     (\<lparr> approved = False, reason = TradingPaused (pause_reason self),
        position_size_multiplier = 0, warnings = [] \<rparr>, self)"
  by (simp add: validate_signal_def)

text \<open>A paused manager rejects a whole sequence of calls and comes out of it unchanged.\<close>

lemma run_signals_paused:
  "is_paused self \<Longrightarrow>
   snd (run_signals self calls) = self \<and>
   (\<forall>d \<in> set (fst (run_signals self calls)). \<not> approved d \<and> position_size_multiplier d = 0)"
proof (induction calls)
  case Nil
  then show ?case by simp
next
  case (Cons c calls)
  obtain now sig acc pos sent where c: "c = (now, sig, acc, pos, sent)"
    by (cases c) auto
  show ?case using Cons
    by (simp add: c validate_signal_paused case_prod_beta)
qed

text \<open>The sentiment check touches the sentiment cache only.\<close>

lemma check_sentiment_config:
  "config (snd (check_sentiment self now sent)) = config self"
  by (simp add: check_sentiment_def Let_def split: prod.splits if_splits)

lemma check_drawdown_cache:
  "fst (check_drawdown (self\<lparr> cached_sentiment := c, last_sentiment_check := t \<rparr>) acc)
   = fst (check_drawdown self acc)"
  by (simp add: check_drawdown_def Let_def)

lemma check_drawdown_after_sentiment:
  "fst (check_drawdown (snd (check_sentiment self now sent)) acc) = fst (check_drawdown self acc)"
  by (simp add: check_sentiment_def Let_def check_drawdown_cache split: prod.splits if_splits)

lemma check_liquidation_after_sentiment:
  "check_liquidation_risk (snd (check_sentiment self now sent)) acc pos
   = check_liquidation_risk self acc pos"
  by (simp add: check_sentiment_def Let_def check_liquidation_risk_def
      split: prod.splits if_splits)

lemma check_drawdown_pauses:
  "drawdown (fst (check_drawdown self acc))
     \<ge> dict_get (sub_dict (cfg_drawdown (config self))) ''max_drawdown'' 0.15
   \<Longrightarrow> is_paused (snd (check_drawdown self acc)) \<and> \<not> dr_approved (fst (check_drawdown self acc))"
  by (simp add: check_drawdown_def Let_def split: if_splits)

text \<open>
  A call that gets as far as the drawdown check (the manager is not paused, the sentiment
  gate does not reject, the liquidation gate does not reject) and finds the drawdown at or
  above the limit is rejected and leaves the manager paused.
\<close>

lemma validate_signal_pauses:
  assumes "\<not> is_paused self"
    and "sentiment_enabled self \<and> direction sig = ''buy''
           \<longrightarrow> sr_approved (fst (check_sentiment self now sent))"
    and "lr_approved (check_liquidation_risk self acc pos)"
    and "drawdown (fst (check_drawdown self acc))
           \<ge> dict_get (sub_dict (cfg_drawdown (config self))) ''max_drawdown'' 0.15"
  shows "is_paused (snd (validate_signal self now sig acc pos sent))
       \<and> \<not> approved (fst (validate_signal self now sig acc pos sent))
       \<and> position_size_multiplier (fst (validate_signal self now sig acc pos sent)) = 0"
proof (cases "sentiment_enabled self \<and> direction sig = ''buy''")
  case True
  obtain sres self' where cs: "check_sentiment self now sent = (sres, self')"
    by (cases "check_sentiment self now sent")
  have a: "sr_approved sres" using assms(2) True cs by simp
  have l: "lr_approved (check_liquidation_risk self' acc pos)"
    using check_liquidation_after_sentiment [of self now sent acc pos] cs assms(3) by simp
  have st: "config self' = config self"
    using check_sentiment_config [of self now sent] cs by simp
  have d: "drawdown (fst (check_drawdown self' acc))
           \<ge> dict_get (sub_dict (cfg_drawdown (config self'))) ''max_drawdown'' 0.15"
    using check_drawdown_after_sentiment [of self now sent acc] cs assms(4) st by simp
  obtain dres self2 where cd: "check_drawdown self' acc = (dres, self2)"
    by (cases "check_drawdown self' acc")
  have p: "is_paused self2 \<and> \<not> dr_approved dres"
    using check_drawdown_pauses [OF d] cd by simp
  show ?thesis using assms(1) True cs a l cd p
    by (auto simp add: validate_signal_def Let_def case_prod_beta)
next
  case False
  obtain dres self2 where cd: "check_drawdown self acc = (dres, self2)"
    by (cases "check_drawdown self acc")
  have p: "is_paused self2 \<and> \<not> dr_approved dres"
    using check_drawdown_pauses [OF assms(4)] cd by simp
  show ?thesis using assms(1,3) False cd p
    by (auto simp add: validate_signal_def Let_def case_prod_beta)
qed

text \<open>
  Claim C1 (sticky pause). When a \<open>validate_signal\<close> call observes a drawdown at or above
  \<open>max_drawdown\<close> (it reaches the drawdown check, which computes such a drawdown), the call
  is rejected with multiplier 0 and sets \<open>is_paused\<close>. From the manager it leaves, every
  sequence of further \<open>validate_signal\<close> calls, whatever their arguments, returns only
  decisions with \<open>approved = False\<close> and multiplier 0 and leaves \<open>is_paused\<close> set; only
  \<open>resume_trading\<close> clears it.
\<close>

theorem sticky_pause:
  assumes "\<not> is_paused self"
    and "sentiment_enabled self \<and> direction sig = ''buy''
           \<longrightarrow> sr_approved (fst (check_sentiment self now sent))"
    and "lr_approved (check_liquidation_risk self acc pos)"
    and "drawdown (fst (check_drawdown self acc))
           \<ge> dict_get (sub_dict (cfg_drawdown (config self))) ''max_drawdown'' 0.15"
    and "self' = snd (validate_signal self now sig acc pos sent)"
  shows "\<not> approved (fst (validate_signal self now sig acc pos sent))
       \<and> position_size_multiplier (fst (validate_signal self now sig acc pos sent)) = 0
       \<and> is_paused self'
       \<and> (\<forall>d \<in> set (fst (run_signals self' calls)).
             \<not> approved d \<and> position_size_multiplier d = 0)
       \<and> is_paused (snd (run_signals self' calls))
       \<and> \<not> is_paused (resume_trading (snd (run_signals self' calls)))"
proof -
  have p: "is_paused self'"
    using validate_signal_pauses [OF assms(1-4)] assms(5) by simp
  show ?thesis
    using validate_signal_pauses [OF assms(1-4)] run_signals_paused [OF p, of calls] p
    by (simp add: resume_trading_def)
qed

text \<open>
  The drawdown scenario: high-water mark 10000, equity 8400, limit 0.15. The first call
  pauses the manager; the next call, a buy with ample balance and good sentiment, is
  rejected.
\<close>

theorem sticky_pause_witness:
  "\<not> is_paused (reset_max_equity (RiskManager_init
       \<lparr> sentiment_filter_enabled = None, sentiment_filter = None,
         liquidation_monitor = None, cfg_drawdown = Some [(''max_drawdown'', 0.15)] \<rparr>) 10000)
   \<and> drawdown (fst (check_drawdown (reset_max_equity (RiskManager_init
       \<lparr> sentiment_filter_enabled = None, sentiment_filter = None,
         liquidation_monitor = None, cfg_drawdown = Some [(''max_drawdown'', 0.15)] \<rparr>) 10000)
       [(''total'', 8400), (''available'', 8400), (''used'', 0)])) = 0.16
   \<and> \<not> approved (fst (validate_signal (reset_max_equity (RiskManager_init
       \<lparr> sentiment_filter_enabled = None, sentiment_filter = None,
         liquidation_monitor = None, cfg_drawdown = Some [(''max_drawdown'', 0.15)] \<rparr>) 10000) 0
       \<lparr> direction = ''sell'', entry_price = 100, stop_loss = 102, strength = ''medium'' \<rparr>
       [(''total'', 8400), (''available'', 8400), (''used'', 0)] None None))
   \<and> is_paused (snd (validate_signal (reset_max_equity (RiskManager_init
       \<lparr> sentiment_filter_enabled = None, sentiment_filter = None,
         liquidation_monitor = None, cfg_drawdown = Some [(''max_drawdown'', 0.15)] \<rparr>) 10000) 0
       \<lparr> direction = ''sell'', entry_price = 100, stop_loss = 102, strength = ''medium'' \<rparr>
       [(''total'', 8400), (''available'', 8400), (''used'', 0)] None None))
   \<and> fst (run_signals
         (snd (validate_signal (reset_max_equity (RiskManager_init
            \<lparr> sentiment_filter_enabled = None, sentiment_filter = None,
              liquidation_monitor = None, cfg_drawdown = Some [(''max_drawdown'', 0.15)] \<rparr>)
              10000) 0
            \<lparr> direction = ''sell'', entry_price = 100, stop_loss = 102, strength = ''medium'' \<rparr>
            [(''total'', 8400), (''available'', 8400), (''used'', 0)] None None))
         [(60, \<lparr> direction = ''buy'', entry_price = 100, stop_loss = 98,
                 strength = ''strong'' \<rparr>,
           [(''total'', 20000), (''available'', 20000), (''used'', 0)], None,
           Some [(''score'', 0.9), (''fud_ratio'', 0)])])
       = [\<lparr> approved = False, reason = TradingPaused (Some (MaxDrawdownReached 0.16)),
             position_size_multiplier = 0, warnings = [] \<rparr>]
   \<and> is_paused (snd (run_signals
         (snd (validate_signal (reset_max_equity (RiskManager_init
            \<lparr> sentiment_filter_enabled = None, sentiment_filter = None,
              liquidation_monitor = None, cfg_drawdown = Some [(''max_drawdown'', 0.15)] \<rparr>)
              10000) 0
            \<lparr> direction = ''sell'', entry_price = 100, stop_loss = 102, strength = ''medium'' \<rparr>
            [(''total'', 8400), (''available'', 8400), (''used'', 0)] None None))
         [(60, \<lparr> direction = ''buy'', entry_price = 100, stop_loss = 98,
                 strength = ''strong'' \<rparr>,
           [(''total'', 20000), (''available'', 20000), (''used'', 0)], None,
           Some [(''score'', 0.9), (''fud_ratio'', 0)])]))"
proof -
  let ?m = "reset_max_equity (RiskManager_init
       \<lparr> sentiment_filter_enabled = None, sentiment_filter = None,
         liquidation_monitor = None, cfg_drawdown = Some [(''max_drawdown'', 0.15)] \<rparr>) 10000"
  let ?acc = "[(''total'', 8400), (''available'', 8400), (''used'', 0)]"
  let ?sig = "\<lparr> direction = ''sell'', entry_price = 100, stop_loss = 102,
                strength = ''medium'' \<rparr>"
  let ?calls = "[(60, \<lparr> direction = ''buy'', entry_price = 100, stop_loss = 98,
                           strength = ''strong'' \<rparr>,
                  [(''total'', 20000), (''available'', 20000), (''used'', 0)], None,
                  Some [(''score'', 0.9), (''fud_ratio'', 0)])]"
  have h1: "\<not> is_paused ?m"
    by (simp add: reset_max_equity_def RiskManager_init_def)
  have h2: "sentiment_enabled ?m \<and> direction ?sig = ''buy''
              \<longrightarrow> sr_approved (fst (check_sentiment ?m 0 None))"
    by simp
  have h3: "lr_approved (check_liquidation_risk ?m ?acc None)"
    by (simp add: check_liquidation_risk_def)
  have dd: "drawdown (fst (check_drawdown ?m ?acc)) = 0.16"
    by (simp add: check_drawdown_def reset_max_equity_def RiskManager_init_def sub_dict_def
        Let_def)
  have h4: "drawdown (fst (check_drawdown ?m ?acc))
              \<ge> dict_get (sub_dict (cfg_drawdown (config ?m))) ''max_drawdown'' 0.15"
    unfolding dd by (simp add: reset_max_equity_def RiskManager_init_def sub_dict_def)
  have ev: "fst (run_signals (snd (validate_signal ?m 0 ?sig ?acc None None)) ?calls)
       = [\<lparr> approved = False, reason = TradingPaused (Some (MaxDrawdownReached 0.16)),
             position_size_multiplier = 0, warnings = [] \<rparr>]"
    by (simp add: validate_signal_def check_liquidation_risk_def check_drawdown_def
        reset_max_equity_def RiskManager_init_def sub_dict_def Let_def)
  show ?thesis
    using sticky_pause [OF h1 h2 h3 h4 refl, of ?calls] h1 dd ev by blast
qed

text \<open>
  Claim C6. A buy signal whose sentiment reading passes both thresholds with a FUD ratio
  above 0.30, and that passes every other gate, is claimed to be approved with the
  high-FUD warning among the decision's warnings. The sentiment check does produce the
  warning, but \<open>validate_signal\<close> never copies the warnings of an approving sentiment
  check (it does so for the liquidation and the drawdown checks): the approved decision
  comes back with no warning.
\<close>

theorem high_fud_warning_dropped:
  "fst (validate_signal
          (RiskManager_init \<lparr> sentiment_filter_enabled = None, sentiment_filter = None,
                              liquidation_monitor = None, cfg_drawdown = None \<rparr>) 1000
          \<lparr> direction = ''buy'', entry_price = 100, stop_loss = 98, strength = ''strong'' \<rparr>
          [(''total'', 10000), (''available'', 5000), (''used'', 0)] None
          (Some [(''score'', 0), (''fud_ratio'', 0.5)]))
     = \<lparr> approved = True, reason = Text ''All risk checks passed'',
         position_size_multiplier = 1, warnings = [] \<rparr>
   \<and> sr_warnings (fst (check_sentiment
          (RiskManager_init \<lparr> sentiment_filter_enabled = None, sentiment_filter = None,
                              liquidation_monitor = None, cfg_drawdown = None \<rparr>) 1000
          (Some [(''score'', 0), (''fud_ratio'', 0.5)])))
     = [HighFudRatio 0.5]"
  by (simp add: validate_signal_def RiskManager_init_def check_sentiment_def
      check_liquidation_risk_def check_drawdown_def check_account_balance_def
      sub_dict_def dict_truthy_def Let_def)

section \<open>Properties of the stop-loss manager\<close>

















section \<open>Properties of the take-profit manager\<close>

subsection \<open>Ratio normalisation\<close>

lemma ratio_numbers_nonneg: "r \<in> set (ratio_numbers vs) \<Longrightarrow> 0 \<le> r"
proof (induction vs)
  case Nil
  then show ?case by simp
next
  case (Cons v vs)
  then show ?case by (cases v) (simp_all split: if_splits, blast+)
qed

lemma positive_numbers_pos: "r \<in> set (positive_numbers vs) \<Longrightarrow> 0 < r"
proof (induction vs)
  case Nil
  then show ?case by simp
next
  case (Cons v vs)
  then show ?case by (cases v) (simp_all split: if_splits, blast+)
qed

lemma sum_list_map_divide:
  fixes t :: real
  shows "sum_list (map (\<lambda>v. v / t) xs) = sum_list xs / t"
  by (induction xs) (simp_all add: add_divide_distrib)

lemma sum_list_equal_weights:
  assumes "0 < n"
  shows "sum_list (replicate n (1 / real n)) = 1"
proof -
  have "sum_list (replicate n (1 / real n)) = real n * (1 / real n)"
    by (simp only: sum_list_replicate)
  also have "\<dots> = 1" using assms by simp
  finally show ?thesis .
qed

lemma sum_list_nonneg_real:
  fixes xs :: "real list"
  assumes "\<And>x. x \<in> set xs \<Longrightarrow> 0 \<le> x"
  shows "0 \<le> sum_list xs"
  using assms by (induction xs) simp_all

lemma sum_list_zero_all_zero:
  fixes xs :: "real list"
  assumes "\<And>x. x \<in> set xs \<Longrightarrow> 0 \<le> x" and "sum_list xs = 0" and "x \<in> set xs"
  shows "x = 0"
  using assms
proof (induction xs)
  case Nil
  then show ?case by simp
next
  case (Cons y ys)
  have y: "0 \<le> y" using Cons.prems(1) by simp
  have s: "0 \<le> sum_list ys" using Cons.prems(1) by (intro sum_list_nonneg_real) simp
  have "y = 0" "sum_list ys = 0" using y s Cons.prems(2) by simp_all
  then show ?case using Cons by auto
qed

lemma sum_list_all_zero:
  fixes xs :: "real list"
  assumes "\<And>x. x \<in> set xs \<Longrightarrow> x = 0"
  shows "sum_list xs = 0"
  using assms by (induction xs) simp_all

lemma length_match_length: "length (match_length rs n) = n"
  by (simp add: match_length_def)

lemma match_length_pad_cut:
  "rs \<noteq> [] \<Longrightarrow> match_length rs n = take n (rs @ replicate (n - length rs) (last rs))"
  by (simp add: match_length_def)

lemma match_length_nonneg:
  assumes "\<And>r. r \<in> set rs \<Longrightarrow> 0 \<le> r" and "x \<in> set (match_length rs n)"
  shows "0 \<le> x"
proof (cases "rs = []")
  case True
  then show ?thesis using assms(2) by (simp add: match_length_def split: if_splits)
next
  case False
  then have l: "0 \<le> last rs" using assms(1) by simp
  have "x \<in> set rs \<or> x = last rs"
    using assms(2) False
    by (auto simp add: match_length_def split: if_splits dest: in_set_takeD)
  then show ?thesis using l assms(1) by blast
qed

lemma match_unfold:
  assumes "0 < n"
  shows "match_length_and_normalize rs n =
      (if sum_list (match_length rs n) = 0 then replicate n (1 / real n)
       else map (\<lambda>v. v / sum_list (match_length rs n)) (match_length rs n))"
  using assms by (simp add: match_length_and_normalize_def Let_def)

lemma length_match: "length (match_length_and_normalize rs n) = n"
proof (cases "n = 0")
  case True
  then show ?thesis by (simp add: match_length_and_normalize_def)
next
  case False
  then show ?thesis by (simp add: match_unfold length_match_length)
qed

lemma match_sum:
  assumes "0 < n"
  shows "sum_list (match_length_and_normalize rs n) = 1"
proof (cases "sum_list (match_length rs n) = 0")
  case True
  have "match_length_and_normalize rs n = replicate n (1 / real n)"
    using True by (simp add: match_unfold [OF assms])
  then show ?thesis using sum_list_equal_weights [OF assms] by simp
next
  case False
  have "match_length_and_normalize rs n
        = map (\<lambda>v. v / sum_list (match_length rs n)) (match_length rs n)"
    using False by (simp add: match_unfold [OF assms])
  then show ?thesis using False by (simp add: sum_list_map_divide)
qed

lemma match_nonneg:
  assumes "\<And>r. r \<in> set rs \<Longrightarrow> 0 \<le> r" and "x \<in> set (match_length_and_normalize rs n)"
  shows "0 \<le> x"
proof (cases "n = 0")
  case True
  then show ?thesis using assms(2) by (simp add: match_length_and_normalize_def)
next
  case n: False
  have m: "\<And>y. y \<in> set (match_length rs n) \<Longrightarrow> 0 \<le> y"
    using match_length_nonneg assms(1) by blast
  have t: "0 \<le> sum_list (match_length rs n)"
    using m by (rule sum_list_nonneg_real)
  show ?thesis
  proof (cases "sum_list (match_length rs n) = 0")
    case True
    then have "x \<in> set (replicate n (1 / real n))"
      using assms(2) n by (simp add: match_unfold)
    then show ?thesis by simp
  next
    case False
    then have "x \<in> set (map (\<lambda>v. v / sum_list (match_length rs n)) (match_length rs n))"
      using assms(2) n by (simp add: match_unfold)
    then obtain v where "v \<in> set (match_length rs n)" "x = v / sum_list (match_length rs n)"
      by auto
    then show ?thesis using m t by simp
  qed
qed

lemma match_empty:
  assumes "0 < n"
  shows "match_length_and_normalize [] n = replicate n (1 / real n)"
proof -
  have s: "sum_list (match_length [] n) = real n"
    by (simp add: match_length_def sum_list_replicate)
  have "map (\<lambda>v. v / real n) (replicate n (1::real)) = replicate n (1 / real n)"
    by simp
  then show ?thesis using assms s
    by (simp add: match_unfold match_length_def)
qed

lemma match_zero_sum:
  assumes "0 < n" and "\<And>r. r \<in> set rs \<Longrightarrow> 0 \<le> r" and "rs \<noteq> []" and "sum_list rs = 0"
  shows "match_length_and_normalize rs n = replicate n (1 / real n)"
proof -
  have z: "\<And>x. x \<in> set rs \<Longrightarrow> x = 0"
    using sum_list_zero_all_zero [of rs] assms(2,4) by blast
  have lz: "last rs = 0" using z assms(3) by simp
  have "\<And>x. x \<in> set (match_length rs n) \<Longrightarrow> x = 0"
  proof -
    fix x assume "x \<in> set (match_length rs n)"
    then have "x \<in> set rs \<or> x = last rs"
      using assms(3) by (auto simp add: match_length_def split: if_splits dest: in_set_takeD)
    then show "x = 0" using z lz by blast
  qed
  then have "sum_list (match_length rs n) = 0"
    by (rule sum_list_all_zero)
  then show ?thesis using assms(1) by (simp add: match_unfold)
qed

lemma match_example: "match_length_and_normalize [0.5] 3 = [1/3, 1/3, 1/3]"
  by (simp add: match_length_and_normalize_def match_length_def Let_def numeral_3_eq_3)

subsection \<open>Quantity accounting\<close>

lemma filter_all: "(\<And>x. x \<in> set xs \<Longrightarrow> P x) \<Longrightarrow> filter P xs = xs"
  by (induction xs) simp_all

lemma filter_none: "(\<And>x. x \<in> set xs \<Longrightarrow> \<not> P x) \<Longrightarrow> filter P xs = []"
  by (induction xs) simp_all

lemma sum_targets_nonneg:
  assumes "\<forall>l \<in> set ls. 0 \<le> target_qty l"
  shows "0 \<le> sum_list (map target_qty ls)"
  using assms by (induction ls) simp_all

lemma tp_inv_filled_sum:
  assumes "tp_inv info"
  shows "filled_sum info = sum_list (map target_qty (take (next_index info) (levels info)))"
proof -
  let ?k = "next_index info"
  let ?ls = "levels info"
  have t: "filter triggered (take ?k ?ls) = take ?k ?ls"
    using assms by (intro filter_all) (simp add: tp_inv_def)
  have d: "filter triggered (drop ?k ?ls) = []"
    using assms by (intro filter_none) (simp add: tp_inv_def)
  have "filter triggered ?ls = filter triggered (take ?k ?ls @ drop ?k ?ls)"
    by simp
  also have "\<dots> = take ?k ?ls" using t d by (simp only: filter_append append_Nil2)
  finally have f: "filter triggered ?ls = take ?k ?ls" .
  have "\<forall>l \<in> set (take ?k ?ls). filled_qty l = target_qty l"
    using assms unfolding tp_inv_def by blast
  then have m: "map filled_qty (take ?k ?ls) = map target_qty (take ?k ?ls)"
    by (simp only: map_eq_conv)
  show ?thesis unfolding filled_sum_def f m by (rule refl)
qed

lemma tp_inv_accounting:
  assumes "tp_inv info"
  shows "filled_sum info \<le> total_qty info
       \<and> remaining_qty info = total_qty info - filled_sum info
       \<and> 0 \<le> remaining_qty info
       \<and> (completed info \<longrightarrow> filled_sum info = total_qty info)"
proof -
  let ?k = "next_index info"
  let ?ls = "levels info"
  have split: "sum_list (map target_qty ?ls)
        = sum_list (map target_qty (take ?k ?ls)) + sum_list (map target_qty (drop ?k ?ls))"
    by (simp only: sum_list_append [symmetric] map_append [symmetric] append_take_drop_id)
  have r: "remaining_qty info = sum_list (map target_qty (drop ?k ?ls))"
    using assms unfolding tp_inv_def by blast
  have t: "total_qty info = sum_list (map target_qty ?ls)"
    using assms unfolding tp_inv_def by blast
  have c: "completed info \<longrightarrow> remaining_qty info = 0"
    using assms unfolding tp_inv_def by blast
  have "\<forall>l \<in> set (drop ?k ?ls). 0 \<le> target_qty l"
    using assms by (auto simp add: tp_inv_def dest: in_set_dropD)
  then have nn: "0 \<le> remaining_qty info"
    unfolding r by (rule sum_targets_nonneg)
  have f: "filled_sum info = sum_list (map target_qty (take ?k ?ls))"
    using assms by (rule tp_inv_filled_sum)
  show ?thesis using split r t c nn f by simp
qed

lemma fill_level_inv:
  assumes "tp_inv info" and "next_index info < length (levels info)"
  shows "tp_inv (fill_level now_ms info)"
proof -
  let ?k = "next_index info"
  let ?ls = "levels info"
  let ?lv = "?ls ! ?k"
  let ?rest = "sum_list (map target_qty (drop (Suc ?k) ?ls))"
  have dr: "drop ?k ?ls = ?lv # drop (Suc ?k) ?ls"
    using assms(2) by (simp add: Cons_nth_drop_Suc)
  have tg: "0 \<le> target_qty ?lv"
    using assms by (simp add: tp_inv_def)
  have "\<forall>l \<in> set (drop (Suc ?k) ?ls). 0 \<le> target_qty l"
    using assms(1) by (auto simp add: tp_inv_def dest: in_set_dropD)
  then have rest: "0 \<le> ?rest" by (rule sum_targets_nonneg)
  have rem: "remaining_qty info = target_qty ?lv + ?rest"
    using assms(1) dr by (simp add: tp_inv_def)
  have fill: "min (target_qty ?lv) (remaining_qty info) = target_qty ?lv"
    using rem rest by simp
  let ?lv' = "?lv\<lparr> filled_qty := target_qty ?lv, triggered := True, trigger_ts := Some now_ms \<rparr>"
  have fl: "fill_level now_ms info
        = info\<lparr> levels := ?ls[?k := ?lv'], remaining_qty := ?rest, next_index := Suc ?k \<rparr>"
    using rem rest fill by (simp add: fill_level_def Let_def)
  have tk: "take (Suc ?k) (?ls[?k := ?lv']) = take ?k ?ls @ [?lv']"
    using assms(2) by (simp add: take_Suc_conv_app_nth)
  have dk: "drop (Suc ?k) (?ls[?k := ?lv']) = drop (Suc ?k) ?ls"
    by simp
  have tq: "map target_qty (?ls[?k := ?lv']) = map target_qty ?ls"
    using assms(2) by (simp add: map_update list_update_same_conv)
  have a1: "Suc ?k \<le> length (?ls[?k := ?lv'])" using assms(2) by simp
  have a2: "\<forall>l \<in> set (?ls[?k := ?lv']). 0 \<le> target_qty l"
  proof
    fix l assume "l \<in> set (?ls[?k := ?lv'])"
    then have "target_qty l \<in> set (map target_qty (?ls[?k := ?lv']))" by simp
    then have "target_qty l \<in> set (map target_qty ?ls)" by (simp only: tq)
    then show "0 \<le> target_qty l" using assms(1) by (auto simp add: tp_inv_def)
  qed
  have a3: "\<forall>l \<in> set (take (Suc ?k) (?ls[?k := ?lv'])).
            triggered l \<and> filled_qty l = target_qty l"
    using assms(1) by (simp add: tk tp_inv_def)
  have a4: "\<forall>l \<in> set (drop (Suc ?k) (?ls[?k := ?lv'])). \<not> triggered l"
    using assms(1) dr by (simp add: dk tp_inv_def)
  have a5: "?rest = sum_list (map target_qty (drop (Suc ?k) (?ls[?k := ?lv'])))"
    by (simp add: dk)
  have a6: "total_qty info = sum_list (map target_qty (?ls[?k := ?lv']))"
    using assms(1) by (simp only: tq) (simp add: tp_inv_def)
  have a7: "completed info \<longrightarrow> ?rest = 0"
    using assms(1) rem rest tg by (auto simp add: tp_inv_def)
  show ?thesis
    unfolding fl using a1 a2 a3 a4 a5 a6 a7 by (simp add: tp_inv_def)
qed

lemma tp_loop_inv:
  "tp_inv info \<Longrightarrow> tp_inv (fst (tp_loop now_ms current_price info trig))"
proof (induction now_ms current_price info trig rule: tp_loop.induct)
  case (1 now_ms current_price info trig)
  show ?case
  proof (cases "next_index info < length (levels info)
                \<and> is_level_hit (tp_direction info) current_price
                     (lv_price (levels info ! next_index info))")
    case False
    then show ?thesis using "1.prems" by (subst tp_loop.simps) auto
  next
    case True
    then have f: "tp_inv (fill_level now_ms info)"
      using fill_level_inv "1.prems" by blast
    show ?thesis
    proof (cases "remaining_qty (fill_level now_ms info) \<le> 0")
      case T: True
      then show ?thesis using True f by (subst tp_loop.simps) simp
    next
      case F: False
      have "tp_inv (fst (tp_loop now_ms current_price (fill_level now_ms info)
                          (trig @ [fill_report info])))"
        using "1.IH" True F f by simp
      then show ?thesis using True F by (subst tp_loop.simps) simp
    qed
  qed
qed

lemma update_take_profit_inv:
  assumes "targets self symbol = Some info0" and "tp_inv info0"
  shows "\<exists>info2. targets (snd (update_take_profit self now_ms symbol p)) symbol = Some info2
          \<and> tp_inv info2
          \<and> completed info2 = tu_completed (fst (update_take_profit self now_ms symbol p))
          \<and> tu_remaining_qty (fst (update_take_profit self now_ms symbol p)) = remaining_qty info2
          \<and> take_profit_info (fst (update_take_profit self now_ms symbol p)) = Some info2"
proof -
  let ?info1 = "fst (tp_loop now_ms p info0 [])"
  let ?done = "(next_index ?info1 \<ge> length (levels ?info1) \<or> remaining_qty ?info1 \<le> 0)"
  have i1: "tp_inv ?info1" using assms(2) by (rule tp_loop_inv)
  have nn: "0 \<le> remaining_qty ?info1" using tp_inv_accounting [OF i1] by simp
  have z: "?done \<longrightarrow> remaining_qty ?info1 = 0"
    using i1 nn by (auto simp add: tp_inv_def)
  have i2: "tp_inv (?info1\<lparr> completed := ?done \<rparr>)"
    using i1 z by (simp add: tp_inv_def)
  show ?thesis using assms(1) i2
    by (simp add: update_take_profit_def Let_def)
qed

lemma prepare_ok:
  assumes "default_levels self \<noteq> []" and "\<forall>r \<in> set (default_ratios self). 0 \<le> r"
  shows "fst (prepare_levels_and_ratios self lv rq) \<noteq> []
       \<and> length (snd (prepare_levels_and_ratios self lv rq))
           = length (fst (prepare_levels_and_ratios self lv rq))
       \<and> sum_list (snd (prepare_levels_and_ratios self lv rq)) = 1
       \<and> (\<forall>r \<in> set (snd (prepare_levels_and_ratios self lv rq)). 0 \<le> r)"
proof -
  let ?lvls = "(if sanitize_levels lv = [] then default_levels self else sanitize_levels lv)"
  let ?requested = "(case rq of None \<Rightarrow> [] | Some rs \<Rightarrow> ratio_numbers rs)"
  let ?c = "(if ?requested = [] then default_ratios self else ?requested)"
  have p: "prepare_levels_and_ratios self lv rq
           = (?lvls, match_length_and_normalize ?c (length ?lvls))"
    by (simp add: prepare_levels_and_ratios_def Let_def)
  have ne: "?lvls \<noteq> []" using assms(1) by simp
  then have pos: "0 < length ?lvls" by simp
  have c0: "\<And>r. r \<in> set ?requested \<Longrightarrow> 0 \<le> r"
    using ratio_numbers_nonneg by (auto split: option.splits)
  have c: "\<And>r. r \<in> set ?c \<Longrightarrow> 0 \<le> r"
    using c0 assms(2) by (simp split: if_splits)
  have nn: "\<forall>r \<in> set (match_length_and_normalize ?c (length ?lvls)). 0 \<le> r"
    using match_nonneg [of ?c _ "length ?lvls"] c by blast
  show ?thesis
    unfolding p fst_conv snd_conv
    using ne nn match_sum [OF pos, of ?c] length_match [of ?c "length ?lvls"] by blast
qed

lemma map_snd_of_enumerate:
  "map (\<lambda>x. f (snd x)) (enumerate k zs) = map f zs"
  by (induction zs arbitrary: k) simp_all

lemma map_target_qty_make_level:
  "map target_qty (map (make_level e d t) (enumerate 0 zs)) = map (\<lambda>z. t * snd z) zs"
proof -
  have "map target_qty (map (make_level e d t) (enumerate 0 zs))
        = map (\<lambda>x. t * snd (snd x)) (enumerate 0 zs)"
    by (simp add: make_level_def)
  also have "\<dots> = map (\<lambda>z. t * snd z) zs"
    by (rule map_snd_of_enumerate)
  finally show ?thesis .
qed

lemma sum_list_scaled:
  fixes t :: real
  shows "sum_list (map (\<lambda>z. t * snd z) (zip xs ys)) = t * sum_list (map snd (zip xs ys))"
  by (induction "zip xs ys" arbitrary: xs ys) (simp_all add: sum_list_const_mult comp_def)

lemma initialize_take_profit_fields:
  "fst (initialize_take_profit self now_ms symbol pos pcts rq)
   = \<lparr> tp_direction = normalize_direction pos, tp_entry_price = pos_entry_price pos,
       total_qty = (if first_number (qty pos) (pos_quantity pos) \<le> 0 then 1
                    else first_number (qty pos) (pos_quantity pos)),
       remaining_qty = (if first_number (qty pos) (pos_quantity pos) \<le> 0 then 1
                        else first_number (qty pos) (pos_quantity pos)),
       levels = map (make_level (pos_entry_price pos) (normalize_direction pos)
                       (if first_number (qty pos) (pos_quantity pos) \<le> 0 then 1
                        else first_number (qty pos) (pos_quantity pos)))
                  (enumerate 0 (zip (fst (prepare_levels_and_ratios self pcts rq))
                                    (snd (prepare_levels_and_ratios self pcts rq)))),
       next_index = 0, created_at = now_ms, completed = False \<rparr>
   \<and> snd (initialize_take_profit self now_ms symbol pos pcts rq)
     = self\<lparr> targets := (targets self)(symbol \<mapsto>
                fst (initialize_take_profit self now_ms symbol pos pcts rq)) \<rparr>"
  by (simp add: initialize_take_profit_def Let_def)

lemma make_levels_inv:
  assumes "0 < t" and "length rs = length lv" and "sum_list rs = 1"
    and "\<forall>r \<in> set rs. 0 \<le> r"
  shows "tp_inv \<lparr> tp_direction = d, tp_entry_price = e, total_qty = t, remaining_qty = t,
                  levels = map (make_level e d t) (enumerate 0 (zip lv rs)),
                  next_index = 0, created_at = c, completed = False \<rparr>"
proof -
  let ?ls = "map (make_level e d t) (enumerate 0 (zip lv rs))"
  have sn: "map snd (zip lv rs) = rs"
    using assms(2) by (simp add: map_snd_zip)
  have tq: "map target_qty ?ls = map (\<lambda>z. t * snd z) (zip lv rs)"
    by (rule map_target_qty_make_level)
  have total: "sum_list (map target_qty ?ls) = t"
    unfolding tq sum_list_scaled sn using assms(3) by simp
  have nn: "\<forall>l \<in> set ?ls. 0 \<le> target_qty l"
  proof
    fix l assume "l \<in> set ?ls"
    then have "target_qty l \<in> target_qty ` set ?ls" by (rule imageI)
    then have "target_qty l \<in> set (map target_qty ?ls)" by (simp only: set_map)
    then obtain z where z: "z \<in> set (zip lv rs)" "target_qty l = t * snd z"
      unfolding tq by auto
    have "snd z \<in> set rs" using z(1) by (metis in_set_zipE prod.collapse)
    then have "0 \<le> snd z" using assms(4) by blast
    then show "0 \<le> target_qty l" using z(2) assms(1) by simp
  qed
  have nt: "\<forall>l \<in> set ?ls. \<not> triggered l"
    by (auto simp add: make_level_def)
  show ?thesis
    using total nn nt by (simp add: tp_inv_def)
qed

lemma initialize_take_profit_inv:
  assumes "default_levels self \<noteq> []" and "\<forall>r \<in> set (default_ratios self). 0 \<le> r"
  shows "tp_inv (fst (initialize_take_profit self now_ms symbol pos pcts rq))"
proof -
  let ?lr = "prepare_levels_and_ratios self pcts rq"
  define t where "t = (if first_number (qty pos) (pos_quantity pos) \<le> 0 then 1
             else first_number (qty pos) (pos_quantity pos))"
  note ok = prepare_ok [OF assms, of pcts rq]
  have t: "0 < t" by (simp add: t_def)
  have "tp_inv \<lparr> tp_direction = normalize_direction pos, tp_entry_price = pos_entry_price pos,
                  total_qty = t, remaining_qty = t,
                  levels = map (make_level (pos_entry_price pos) (normalize_direction pos) t)
                             (enumerate 0 (zip (fst ?lr) (snd ?lr))),
                  next_index = 0, created_at = now_ms, completed = False \<rparr>"
    using t ok by (intro make_levels_inv) blast+
  then show ?thesis
    unfolding t_def by (simp only: initialize_take_profit_fields)
qed

lemma TakeProfitManager_init_inv: "tp_manager_inv (TakeProfitManager_init cfg)"
proof -
  have "\<forall>r \<in> set (default_ratios (TakeProfitManager_init cfg)). 0 \<le> r"
    using match_nonneg [of "ratio_numbers (case cfg_ratios cfg of None \<Rightarrow> [] | Some rs \<Rightarrow> rs)"]
      ratio_numbers_nonneg
    by (auto simp add: TakeProfitManager_init_def Let_def)
  moreover have "default_levels (TakeProfitManager_init cfg) \<noteq> []"
    by (simp add: TakeProfitManager_init_def Let_def)
  ultimately show ?thesis
    by (simp add: tp_manager_inv_def) (simp add: TakeProfitManager_init_def Let_def)
qed

lemma update_take_profit_other:
  "symbol' \<noteq> symbol \<Longrightarrow>
   targets (snd (update_take_profit self now_ms symbol p)) symbol' = targets self symbol'"
  by (simp add: update_take_profit_def Let_def split: option.splits)

lemma update_take_profit_defaults:
  "default_levels (snd (update_take_profit self now_ms symbol p)) = default_levels self
   \<and> default_ratios (snd (update_take_profit self now_ms symbol p)) = default_ratios self"
  by (simp add: update_take_profit_def Let_def split: option.splits)

lemma update_take_profit_untracked:
  "targets self symbol = None \<Longrightarrow> snd (update_take_profit self now_ms symbol p) = self"
  by (simp add: update_take_profit_def)

lemma tp_step_inv:
  assumes "tp_manager_inv self"
  shows "tp_manager_inv (tp_step self x)"
proof (cases x)
  case (InitTP now_ms symbol pos pcts rq)
  have d: "default_levels self \<noteq> []" "\<forall>r \<in> set (default_ratios self). 0 \<le> r"
    using assms by (simp_all add: tp_manager_inv_def)
  have i: "tp_inv (fst (initialize_take_profit self now_ms symbol pos pcts rq))"
    using d by (rule initialize_take_profit_inv)
  have s: "tp_step self x = self\<lparr> targets := (targets self)(symbol \<mapsto>
                fst (initialize_take_profit self now_ms symbol pos pcts rq)) \<rparr>"
    using InitTP initialize_take_profit_fields [of self now_ms symbol pos pcts rq] by simp
  show ?thesis unfolding s using assms i by (simp add: tp_manager_inv_def)
next
  case (UpdateTP now_ms symbol p)
  let ?m = "snd (update_take_profit self now_ms symbol p)"
  have s: "tp_step self x = ?m" using UpdateTP by simp
  have "\<forall>symbol' info. targets ?m symbol' = Some info \<longrightarrow> tp_inv info"
  proof (intro allI impI)
    fix symbol' info assume a: "targets ?m symbol' = Some info"
    show "tp_inv info"
    proof (cases "symbol' = symbol")
      case False
      then show ?thesis using a assms update_take_profit_other [of symbol' symbol self now_ms p]
        by (simp add: tp_manager_inv_def)
    next
      case True
      show ?thesis
      proof (cases "targets self symbol")
        case None
        then show ?thesis using a True assms update_take_profit_untracked [of self symbol now_ms p]
          by simp
      next
        case (Some info0)
        then have "tp_inv info0" using assms by (simp add: tp_manager_inv_def)
        then show ?thesis
          using update_take_profit_inv [OF Some, of now_ms p] a True by auto
      qed
    qed
  qed
  then show ?thesis
    unfolding s using assms update_take_profit_defaults [of self now_ms symbol p]
    by (simp add: tp_manager_inv_def)
next
  case (RemoveTP symbol)
  then show ?thesis using assms
    by (simp add: tp_manager_inv_def remove_take_profit_def)
qed

lemma run_tp_ops_inv: "tp_manager_inv self \<Longrightarrow> tp_manager_inv (run_tp_ops self ops)"
  by (induction ops arbitrary: self) (simp_all add: tp_step_inv)

subsection \<open>Ratios prepared for a new tracker\<close>

text \<open>
  Claim C5, as the code has it. For every list of non-negative ratios handed to
  \<open>_match_length_and_normalize\<close> and every positive level count \<open>n\<close>, the result has \<open>n\<close>
  entries that sum to 1: equal weights \<open>1/n\<close> for an empty list; otherwise the list padded
  with its last value or cut to \<open>n\<close> entries and divided by its sum, or equal weights
  when that sum is 0 (as it is when the list itself sums to 0); \<open>[0.5]\<close> against three
  levels gives \<open>[1/3, 1/3, 1/3]\<close>. For a requested ratio list, \<open>_prepare_levels_and_ratios\<close>
  of any manager reached from the constructor returns one ratio for each level, summing
  to 1; what it normalises is the non-negative numbers of the request, or the manager's
  default ratios when the request has none of them (it is missing, empty or holds no
  non-negative number).
\<close>

theorem ratio_normalization:
  assumes "0 < n" and "\<forall>r \<in> set rs. 0 \<le> r"
  shows "length (match_length_and_normalize rs n) = n
       \<and> sum_list (match_length_and_normalize rs n) = 1
       \<and> (rs = [] \<longrightarrow> match_length_and_normalize rs n = replicate n (1 / real n))
       \<and> (rs \<noteq> [] \<longrightarrow>
            match_length_and_normalize rs n =
              (if sum_list (take n (rs @ replicate (n - length rs) (last rs))) = 0
               then replicate n (1 / real n)
               else map (\<lambda>v. v / sum_list (take n (rs @ replicate (n - length rs) (last rs))))
                      (take n (rs @ replicate (n - length rs) (last rs)))))
       \<and> (sum_list rs = 0 \<longrightarrow> match_length_and_normalize rs n = replicate n (1 / real n))
       \<and> match_length_and_normalize [0.5] 3 = [1/3, 1/3, 1/3]
       \<and> fst (prepare_levels_and_ratios
                 (run_tp_ops (TakeProfitManager_init cfg) ops) lv rq) \<noteq> []
       \<and> length (snd (prepare_levels_and_ratios
                         (run_tp_ops (TakeProfitManager_init cfg) ops) lv rq))
           = length (fst (prepare_levels_and_ratios
                            (run_tp_ops (TakeProfitManager_init cfg) ops) lv rq))
       \<and> sum_list (snd (prepare_levels_and_ratios
                           (run_tp_ops (TakeProfitManager_init cfg) ops) lv rq)) = 1
       \<and> ((case rq of None \<Rightarrow> [] | Some q \<Rightarrow> ratio_numbers q) \<noteq> [] \<longrightarrow>
            snd (prepare_levels_and_ratios (run_tp_ops (TakeProfitManager_init cfg) ops) lv rq)
            = match_length_and_normalize (case rq of None \<Rightarrow> [] | Some q \<Rightarrow> ratio_numbers q)
                (length (fst (prepare_levels_and_ratios
                                (run_tp_ops (TakeProfitManager_init cfg) ops) lv rq))))
       \<and> ((case rq of None \<Rightarrow> [] | Some q \<Rightarrow> ratio_numbers q) = [] \<longrightarrow>
            snd (prepare_levels_and_ratios (run_tp_ops (TakeProfitManager_init cfg) ops) lv rq)
            = match_length_and_normalize
                (default_ratios (run_tp_ops (TakeProfitManager_init cfg) ops))
                (length (fst (prepare_levels_and_ratios
                                (run_tp_ops (TakeProfitManager_init cfg) ops) lv rq))))"
proof -
  let ?m = "run_tp_ops (TakeProfitManager_init cfg) ops"
  have a: "rs = [] \<longrightarrow> match_length_and_normalize rs n = replicate n (1 / real n)"
    using match_empty [OF assms(1)] by simp
  have b: "rs \<noteq> [] \<longrightarrow>
            match_length_and_normalize rs n =
              (if sum_list (take n (rs @ replicate (n - length rs) (last rs))) = 0
               then replicate n (1 / real n)
               else map (\<lambda>v. v / sum_list (take n (rs @ replicate (n - length rs) (last rs))))
                      (take n (rs @ replicate (n - length rs) (last rs))))"
    using match_unfold [OF assms(1), of rs] match_length_pad_cut [of rs n] by simp
  have c: "sum_list rs = 0 \<longrightarrow> match_length_and_normalize rs n = replicate n (1 / real n)"
  proof (cases "rs = []")
    case True
    then show ?thesis using a by simp
  next
    case False
    then show ?thesis using match_zero_sum [OF assms(1) _ False] assms(2) by blast
  qed
  have m: "tp_manager_inv ?m"
    using TakeProfitManager_init_inv by (rule run_tp_ops_inv)
  then have d: "default_levels ?m \<noteq> []" "\<forall>r \<in> set (default_ratios ?m). 0 \<le> r"
    by (simp_all add: tp_manager_inv_def)
  note ok = prepare_ok [OF d, of lv rq]
  have p1: "(case rq of None \<Rightarrow> [] | Some q \<Rightarrow> ratio_numbers q) \<noteq> [] \<longrightarrow>
            snd (prepare_levels_and_ratios ?m lv rq)
            = match_length_and_normalize (case rq of None \<Rightarrow> [] | Some q \<Rightarrow> ratio_numbers q)
                (length (fst (prepare_levels_and_ratios ?m lv rq)))"
    by (simp add: prepare_levels_and_ratios_def Let_def)
  have p2: "(case rq of None \<Rightarrow> [] | Some q \<Rightarrow> ratio_numbers q) = [] \<longrightarrow>
            snd (prepare_levels_and_ratios ?m lv rq)
            = match_length_and_normalize (default_ratios ?m)
                (length (fst (prepare_levels_and_ratios ?m lv rq)))"
    by (simp add: prepare_levels_and_ratios_def Let_def)
  show ?thesis
    using length_match [of rs n] match_sum [OF assms(1), of rs] a b c match_example ok p1 p2
    by blast
qed

theorem ratio_normalization_witness:
  "(0::nat) < 3
   \<and> length (match_length_and_normalize [0.5] 3) = 3
   \<and> sum_list (match_length_and_normalize [0.5] 3) = 1
   \<and> match_length_and_normalize [0.5] 3 = [1/3, 1/3, 1/3]
   \<and> sum_list (snd (prepare_levels_and_ratios
        (run_tp_ops (TakeProfitManager_init
           \<lparr> cfg_levels = None, cfg_ratios = Some [Num 0.4, Num 0.4, Num 0.2] \<rparr>) [])
        None (Some [Num 0.5]))) = 1
   \<and> snd (prepare_levels_and_ratios
        (run_tp_ops (TakeProfitManager_init
           \<lparr> cfg_levels = None, cfg_ratios = Some [Num 0.4, Num 0.4, Num 0.2] \<rparr>) [])
        None (Some [Num 0.5])) = [1/3, 1/3, 1/3]"
proof -
  have h1: "(0::nat) < 3" by simp
  have h2: "\<forall>r \<in> set [0.5::real]. 0 \<le> r" by simp
  have e: "snd (prepare_levels_and_ratios
        (run_tp_ops (TakeProfitManager_init
           \<lparr> cfg_levels = None, cfg_ratios = Some [Num 0.4, Num 0.4, Num 0.2] \<rparr>) [])
        None (Some [Num 0.5])) = [1/3, 1/3, 1/3]"
    by (simp add: prepare_levels_and_ratios_def TakeProfitManager_init_def sanitize_levels_def
        match_length_and_normalize_def match_length_def Let_def numeral_3_eq_3)
  show ?thesis
    using ratio_normalization [where n = 3 and rs = "[0.5]"
        and cfg = "\<lparr> cfg_levels = None, cfg_ratios = Some [Num 0.4, Num 0.4, Num 0.2] \<rparr>"
        and ops = "[]" and lv = None and rq = "Some [Num 0.5]", OF h1 h2] h1 e
    by blast
qed

text \<open>
  Claim C5 as stated fails for an empty requested list: a manager configured with the
  ratios 0.4, 0.4, 0.2 answers the empty request with its normalised defaults, not with
  the equal weights \<open>1/3\<close>.
\<close>

theorem ratio_normalization_counterexample:
  "snd (prepare_levels_and_ratios
          (TakeProfitManager_init
             \<lparr> cfg_levels = None, cfg_ratios = Some [Num 0.4, Num 0.4, Num 0.2] \<rparr>)
          None (Some []))
     = [0.4, 0.4, 0.2]
   \<and> snd (prepare_levels_and_ratios
          (TakeProfitManager_init
             \<lparr> cfg_levels = None, cfg_ratios = Some [Num 0.4, Num 0.4, Num 0.2] \<rparr>)
          None (Some []))
     \<noteq> [1/3, 1/3, 1/3]"
  by (simp add: prepare_levels_and_ratios_def TakeProfitManager_init_def sanitize_levels_def
      match_length_and_normalize_def match_length_def Let_def numeral_3_eq_3)

text \<open>
  Claim C4. Take any manager built by the constructor and any history of initialisations,
  updates and removals on it. For every symbol it then tracks, the sum of \<open>filled_qty\<close>
  over the triggered levels is at most \<open>total_qty\<close>, \<open>remaining_qty\<close> is \<open>total_qty\<close>
  minus that sum and is not negative; and when a further \<open>update_take_profit\<close> call for
  the symbol returns \<open>completed = True\<close>, the filled quantities of the tracker it leaves
  sum to \<open>total_qty\<close> exactly.
\<close>

theorem take_profit_accounting:
  assumes "targets (run_tp_ops (TakeProfitManager_init cfg) ops) symbol = Some info"
  shows "filled_sum info \<le> total_qty info
       \<and> remaining_qty info = total_qty info - filled_sum info
       \<and> 0 \<le> remaining_qty info
       \<and> (tu_completed (fst (update_take_profit
              (run_tp_ops (TakeProfitManager_init cfg) ops) now_ms symbol p))
          \<longrightarrow> (\<exists>info'. targets (snd (update_take_profit
                    (run_tp_ops (TakeProfitManager_init cfg) ops) now_ms symbol p)) symbol
                  = Some info'
                \<and> filled_sum info' = total_qty info'))"
proof -
  let ?m = "run_tp_ops (TakeProfitManager_init cfg) ops"
  have m: "tp_manager_inv ?m"
    using TakeProfitManager_init_inv by (rule run_tp_ops_inv)
  then have i: "tp_inv info" using assms by (simp add: tp_manager_inv_def)
  obtain info2 where i2: "targets (snd (update_take_profit ?m now_ms symbol p)) symbol = Some info2"
      "tp_inv info2"
      "completed info2 = tu_completed (fst (update_take_profit ?m now_ms symbol p))"
    using update_take_profit_inv [OF assms i, of now_ms p] by blast
  show ?thesis
    using tp_inv_accounting [OF i] tp_inv_accounting [OF i2(2)] i2(1,3) by simp
qed

lemmas tp_eval =
  TakeProfitManager_init_def sanitize_levels_def match_length_and_normalize_def
  match_length_def initialize_take_profit_def prepare_levels_and_ratios_def
  normalize_direction_def first_string_def first_number_def lower_def lower_char_def
  make_level_def calculate_target_price_def update_take_profit_def tp_loop.simps
  fill_level_def fill_report_def is_level_hit_def Let_def filled_sum_def

text \<open>
  The ladder scenario: a buy of 10 entered at 100 with levels 3\%, 5\%, 8\% and ratios
  0.4, 0.4, 0.2. One tick at 106 fills the first two levels and leaves 2; a tick at 108
  then completes the ladder.
\<close>

theorem take_profit_accounting_witness:
  "\<exists>info.
     targets (run_tp_ops (TakeProfitManager_init \<lparr> cfg_levels = None, cfg_ratios = None \<rparr>)
       [InitTP 0 ''BTCUSDT''
          \<lparr> side = Some ''buy'', pos_direction = None, pos_entry_price = 100,
            qty = Some 10, pos_quantity = None \<rparr>
          (Some [Num 0.03, Num 0.05, Num 0.08]) (Some [Num 0.4, Num 0.4, Num 0.2]),
        UpdateTP 1 ''BTCUSDT'' 106]) ''BTCUSDT'' = Some info
     \<and> remaining_qty info = 2 \<and> filled_sum info = 8
     \<and> filled_sum info \<le> total_qty info
     \<and> remaining_qty info = total_qty info - filled_sum info
     \<and> 0 \<le> remaining_qty info
     \<and> tu_completed (fst (update_take_profit
          (run_tp_ops (TakeProfitManager_init \<lparr> cfg_levels = None, cfg_ratios = None \<rparr>)
            [InitTP 0 ''BTCUSDT''
               \<lparr> side = Some ''buy'', pos_direction = None, pos_entry_price = 100,
                 qty = Some 10, pos_quantity = None \<rparr>
               (Some [Num 0.03, Num 0.05, Num 0.08]) (Some [Num 0.4, Num 0.4, Num 0.2]),
             UpdateTP 1 ''BTCUSDT'' 106]) 2 ''BTCUSDT'' 108))
     \<and> (\<exists>info'. targets (snd (update_take_profit
          (run_tp_ops (TakeProfitManager_init \<lparr> cfg_levels = None, cfg_ratios = None \<rparr>)
            [InitTP 0 ''BTCUSDT''
               \<lparr> side = Some ''buy'', pos_direction = None, pos_entry_price = 100,
                 qty = Some 10, pos_quantity = None \<rparr>
               (Some [Num 0.03, Num 0.05, Num 0.08]) (Some [Num 0.4, Num 0.4, Num 0.2]),
             UpdateTP 1 ''BTCUSDT'' 106]) 2 ''BTCUSDT'' 108)) ''BTCUSDT'' = Some info'
          \<and> filled_sum info' = total_qty info')"
proof -
  let ?m = "run_tp_ops (TakeProfitManager_init \<lparr> cfg_levels = None, cfg_ratios = None \<rparr>)
       [InitTP 0 ''BTCUSDT''
          \<lparr> side = Some ''buy'', pos_direction = None, pos_entry_price = 100,
            qty = Some 10, pos_quantity = None \<rparr>
          (Some [Num 0.03, Num 0.05, Num 0.08]) (Some [Num 0.4, Num 0.4, Num 0.2]),
        UpdateTP 1 ''BTCUSDT'' 106]"
  have "\<exists>info. targets ?m ''BTCUSDT'' = Some info
          \<and> remaining_qty info = 2 \<and> filled_sum info = 8"
    by (simp add: tp_eval)
  then obtain info where h: "targets ?m ''BTCUSDT'' = Some info"
      and v: "remaining_qty info = 2" "filled_sum info = 8"
    by blast
  have c: "tu_completed (fst (update_take_profit ?m 2 ''BTCUSDT'' 108))"
    by (simp add: tp_eval)
  show ?thesis
    using take_profit_accounting [OF h, of 2 108] h v c by blast
qed

text \<open>
  Claim C10. When neither \<open>qty\<close> nor \<open>quantity\<close> of the position is positive (each is
  missing, zero or negative), \<open>initialize_take_profit\<close> still builds and stores a complete
  tracker: total and remaining quantity are 1, the ladder starts at index 0 with one
  untriggered level for each prepared level, and every target quantity is 1 times the
  level's ratio. The model of the call has no failing branch.
\<close>

theorem initialize_take_profit_substitutes_quantity:
  assumes "case qty pos of None \<Rightarrow> True | Some q \<Rightarrow> q \<le> 0"
    and "case pos_quantity pos of None \<Rightarrow> True | Some q \<Rightarrow> q \<le> 0"
  shows "targets (snd (initialize_take_profit self now_ms symbol pos pcts rq)) symbol
           = Some (fst (initialize_take_profit self now_ms symbol pos pcts rq))
       \<and> total_qty (fst (initialize_take_profit self now_ms symbol pos pcts rq)) = 1
       \<and> remaining_qty (fst (initialize_take_profit self now_ms symbol pos pcts rq)) = 1
       \<and> next_index (fst (initialize_take_profit self now_ms symbol pos pcts rq)) = 0
       \<and> \<not> completed (fst (initialize_take_profit self now_ms symbol pos pcts rq))
       \<and> length (levels (fst (initialize_take_profit self now_ms symbol pos pcts rq)))
           = length (fst (prepare_levels_and_ratios self pcts rq))
       \<and> map lv_ratio (levels (fst (initialize_take_profit self now_ms symbol pos pcts rq)))
           = snd (prepare_levels_and_ratios self pcts rq)
       \<and> (\<forall>l \<in> set (levels (fst (initialize_take_profit self now_ms symbol pos pcts rq))).
             target_qty l = 1 * lv_ratio l \<and> \<not> triggered l \<and> filled_qty l = 0)"
proof -
  let ?lr = "prepare_levels_and_ratios self pcts rq"
  let ?zs = "zip (fst ?lr) (snd ?lr)"
  have fn: "first_number (qty pos) (pos_quantity pos) \<le> 0"
    using assms by (auto simp add: first_number_def split: option.splits)
  have len: "length (snd ?lr) = length (fst ?lr)"
    by (simp add: prepare_levels_and_ratios_def Let_def length_match)
  have f: "fst (initialize_take_profit self now_ms symbol pos pcts rq)
        = \<lparr> tp_direction = normalize_direction pos, tp_entry_price = pos_entry_price pos,
            total_qty = 1, remaining_qty = 1,
            levels = map (make_level (pos_entry_price pos) (normalize_direction pos) 1)
                       (enumerate 0 ?zs),
            next_index = 0, created_at = now_ms, completed = False \<rparr>"
    using fn by (simp add: initialize_take_profit_fields)
  have s: "targets (snd (initialize_take_profit self now_ms symbol pos pcts rq)) symbol
           = Some (fst (initialize_take_profit self now_ms symbol pos pcts rq))"
    by (simp add: initialize_take_profit_def Let_def)
  have ratios: "map lv_ratio (map (make_level (pos_entry_price pos) (normalize_direction pos) 1)
                   (enumerate 0 ?zs)) = snd ?lr"
  proof -
    have "map lv_ratio (map (make_level (pos_entry_price pos) (normalize_direction pos) 1)
                   (enumerate 0 ?zs)) = map (\<lambda>x. snd (snd x)) (enumerate 0 ?zs)"
      by (simp add: make_level_def)
    also have "\<dots> = map snd ?zs" by (rule map_snd_of_enumerate)
    also have "\<dots> = snd ?lr" using len by (simp add: map_snd_zip)
    finally show ?thesis .
  qed
  have lvls: "\<forall>l \<in> set (map (make_level (pos_entry_price pos) (normalize_direction pos) 1)
                   (enumerate 0 ?zs)).
                target_qty l = 1 * lv_ratio l \<and> \<not> triggered l \<and> filled_qty l = 0"
    by (auto simp add: make_level_def)
  have n: "length (map (make_level (pos_entry_price pos) (normalize_direction pos) 1)
                   (enumerate 0 ?zs)) = length (fst ?lr)"
    using len by simp
  show ?thesis
    unfolding f using s [unfolded f] ratios lvls n by simp
qed

theorem initialize_take_profit_substitutes_quantity_witness:
  "(case qty \<lparr> side = Some ''SELL'', pos_direction = None, pos_entry_price = 200,
               qty = Some 0, pos_quantity = Some (- 5) \<rparr>
      of None \<Rightarrow> True | Some q \<Rightarrow> q \<le> 0)
   \<and> (case pos_quantity \<lparr> side = Some ''SELL'', pos_direction = None, pos_entry_price = 200,
               qty = Some 0, pos_quantity = Some (- 5) \<rparr>
      of None \<Rightarrow> True | Some q \<Rightarrow> q \<le> 0)
   \<and> total_qty (fst (initialize_take_profit
        (TakeProfitManager_init \<lparr> cfg_levels = None, cfg_ratios = None \<rparr>) 0 ''ETHUSDT''
        \<lparr> side = Some ''SELL'', pos_direction = None, pos_entry_price = 200,
          qty = Some 0, pos_quantity = Some (- 5) \<rparr> None (Some [Num 1, Num 3]))) = 1
   \<and> remaining_qty (fst (initialize_take_profit
        (TakeProfitManager_init \<lparr> cfg_levels = None, cfg_ratios = None \<rparr>) 0 ''ETHUSDT''
        \<lparr> side = Some ''SELL'', pos_direction = None, pos_entry_price = 200,
          qty = Some 0, pos_quantity = Some (- 5) \<rparr> None (Some [Num 1, Num 3]))) = 1
   \<and> map target_qty (levels (fst (initialize_take_profit
        (TakeProfitManager_init \<lparr> cfg_levels = None, cfg_ratios = None \<rparr>) 0 ''ETHUSDT''
        \<lparr> side = Some ''SELL'', pos_direction = None, pos_entry_price = 200,
          qty = Some 0, pos_quantity = Some (- 5) \<rparr> None (Some [Num 1, Num 3]))))
       = [1/7, 3/7, 3/7]
   \<and> map lv_price (levels (fst (initialize_take_profit
        (TakeProfitManager_init \<lparr> cfg_levels = None, cfg_ratios = None \<rparr>) 0 ''ETHUSDT''
        \<lparr> side = Some ''SELL'', pos_direction = None, pos_entry_price = 200,
          qty = Some 0, pos_quantity = Some (- 5) \<rparr> None (Some [Num 1, Num 3]))))
       = [194, 190, 184]"
proof -
  let ?pos = "\<lparr> side = Some ''SELL'', pos_direction = None, pos_entry_price = 200,
               qty = Some 0, pos_quantity = Some (- 5) \<rparr>"
  let ?m = "TakeProfitManager_init \<lparr> cfg_levels = None, cfg_ratios = None \<rparr>"
  have h1: "case qty ?pos of None \<Rightarrow> True | Some q \<Rightarrow> q \<le> 0" by simp
  have h2: "case pos_quantity ?pos of None \<Rightarrow> True | Some q \<Rightarrow> q \<le> 0" by simp
  have t: "map target_qty (levels (fst (initialize_take_profit ?m 0 ''ETHUSDT'' ?pos None
              (Some [Num 1, Num 3])))) = [1/7, 3/7, 3/7]"
    by (simp add: tp_eval)
  have p: "map lv_price (levels (fst (initialize_take_profit ?m 0 ''ETHUSDT'' ?pos None
              (Some [Num 1, Num 3])))) = [194, 190, 184]"
    by (simp add: tp_eval)
  show ?thesis
    using initialize_take_profit_substitutes_quantity
            [OF h1 h2, of ?m 0 "''ETHUSDT''" None "Some [Num 1, Num 3]"] h1 h2 t p
    by blast
qed

section \<open>Untracked symbols\<close>

text \<open>
  Claim C8. For a symbol the stop-loss manager does not track, \<open>update_stop_loss\<close>
  returns \<open>{'stop_triggered': False}\<close>; for a symbol the take-profit manager does not
  track, \<open>update_take_profit\<close> returns the result with no triggered level and
  \<open>completed = False\<close>. Neither call raises, and each returns the manager exactly as it
  was, so the state tracked for every other symbol is unchanged.
\<close>

theorem untracked_symbol_noop:
  "(position_stops sl symbol = None \<longrightarrow>
      update_stop_loss sl symbol p
      = Inr (\<lparr> stop_triggered = False, stop_price = None, stop_type = None,
               su_stop_info = None, su_current_price = None, pnl_pct = None \<rparr>, sl))
   \<and> (targets tp symbol = None \<longrightarrow>
      update_take_profit tp now_ms symbol p
      = (\<lparr> tu_symbol = symbol, tu_triggered = False, triggered_levels = [],
           tu_current_price = p, tu_remaining_qty = 0, tu_completed = False,
           next_level_price = None, take_profit_info = None \<rparr>, tp))"
  by (simp add: update_stop_loss_def update_take_profit_def)

theorem untracked_symbol_noop_witness:
  "position_stops
     (snd (projr (initialize_stop_loss
        (StopLossManager_init \<lparr> default_pct = None, breakout_pct = None,
           trailing_enabled_cfg = None, trailing_activation = None,
           trailing_distance = None \<rparr>) ''ETHUSDT''
        \<lparr> side = Some ''sell'', pos_direction = None, pos_entry_price = 200,
          qty = Some 3, pos_quantity = None \<rparr> ''default''))) ''BTCUSDT'' = None
   \<and> update_stop_loss
     (snd (projr (initialize_stop_loss
        (StopLossManager_init \<lparr> default_pct = None, breakout_pct = None,
           trailing_enabled_cfg = None, trailing_activation = None,
           trailing_distance = None \<rparr>) ''ETHUSDT''
        \<lparr> side = Some ''sell'', pos_direction = None, pos_entry_price = 200,
          qty = Some 3, pos_quantity = None \<rparr> ''default''))) ''BTCUSDT'' 50000
     = Inr (\<lparr> stop_triggered = False, stop_price = None, stop_type = None,
              su_stop_info = None, su_current_price = None, pnl_pct = None \<rparr>,
            snd (projr (initialize_stop_loss
              (StopLossManager_init \<lparr> default_pct = None, breakout_pct = None,
                 trailing_enabled_cfg = None, trailing_activation = None,
                 trailing_distance = None \<rparr>) ''ETHUSDT''
              \<lparr> side = Some ''sell'', pos_direction = None, pos_entry_price = 200,
                qty = Some 3, pos_quantity = None \<rparr> ''default'')))
   \<and> targets
     (snd (initialize_take_profit
        (TakeProfitManager_init \<lparr> cfg_levels = None, cfg_ratios = None \<rparr>) 0 ''ETHUSDT''
        \<lparr> side = Some ''sell'', pos_direction = None, pos_entry_price = 200,
          qty = Some 3, pos_quantity = None \<rparr> None None)) ''BTCUSDT'' = None
   \<and> update_take_profit
     (snd (initialize_take_profit
        (TakeProfitManager_init \<lparr> cfg_levels = None, cfg_ratios = None \<rparr>) 0 ''ETHUSDT''
        \<lparr> side = Some ''sell'', pos_direction = None, pos_entry_price = 200,
          qty = Some 3, pos_quantity = None \<rparr> None None)) 1 ''BTCUSDT'' 50000
     = (\<lparr> tu_symbol = ''BTCUSDT'', tu_triggered = False, triggered_levels = [],
          tu_current_price = 50000, tu_remaining_qty = 0, tu_completed = False,
          next_level_price = None, take_profit_info = None \<rparr>,
        snd (initialize_take_profit
          (TakeProfitManager_init \<lparr> cfg_levels = None, cfg_ratios = None \<rparr>) 0 ''ETHUSDT''
          \<lparr> side = Some ''sell'', pos_direction = None, pos_entry_price = 200,
            qty = Some 3, pos_quantity = None \<rparr> None None))"
proof -
  let ?pos = "\<lparr> side = Some ''sell'', pos_direction = None, pos_entry_price = 200,
          qty = Some 3, pos_quantity = None \<rparr>"
  let ?sl = "snd (projr (initialize_stop_loss
        (StopLossManager_init \<lparr> default_pct = None, breakout_pct = None,
           trailing_enabled_cfg = None, trailing_activation = None,
           trailing_distance = None \<rparr>) ''ETHUSDT'' ?pos ''default''))"
  let ?tp = "snd (initialize_take_profit
        (TakeProfitManager_init \<lparr> cfg_levels = None, cfg_ratios = None \<rparr>) 0 ''ETHUSDT''
        ?pos None None)"
  have h1: "position_stops ?sl ''BTCUSDT'' = None"
    by (simp add: initialize_stop_loss_def StopLossManager_init_def Let_def)
  have h2: "targets ?tp ''BTCUSDT'' = None"
    by (simp add: initialize_take_profit_def TakeProfitManager_init_def Let_def)
  show ?thesis
    using untracked_symbol_noop [of ?sl "''BTCUSDT''" 50000 ?tp 1] h1 h2 by blast
qed

end
